theory Spec2Isabelle
  imports Complex_Main
begin

section \<open>Probability-difference derivatives: the engine of the two front ends\<close>

text \<open>
  The repository carries the same small engine twice: a React front end
  (\<^verbatim>\<open>pdEngine.js\<close> with \<^verbatim>\<open>App.jsx\<close>) and a Streamlit script. Both are embedded
  here, function by function, under the names the sources use; the Streamlit
  definitions that would clash carry the prefix \<^verbatim>\<open>py_\<close>.

  Numbers: JavaScript numbers and Python floats are read as \<^typ>\<open>real\<close>. Rounding,
  infinities and NaN are outside this model.
  Strings that the sources use as closed enumerations (\<^verbatim>\<open>'LONG'\<close>, \<^verbatim>\<open>'SHORT'\<close>,
  \<^verbatim>\<open>'OPEN'\<close>, \<^verbatim>\<open>'LIQUIDATED'\<close>, \<^verbatim>\<open>'SETTLED'\<close>) are datatypes.
\<close>

datatype side = LONG | SHORT

datatype status = OPEN | LIQUIDATED | SETTLED

subsection \<open>pdEngine.js: the PD math\<close>

definition pdPnl :: "real \<Rightarrow> real \<Rightarrow> real \<Rightarrow> side \<Rightarrow> real" where
  "pdPnl notional pEntry pCurrent sd =
     (let s = (if sd = LONG then 1 else - 1);
          deltaP = pCurrent - pEntry
      in notional * deltaP * s)"

definition computeEquity :: "real \<Rightarrow> real \<Rightarrow> real" where
  "computeEquity imAmount pnl = imAmount + pnl"

definition LIQ_THRESHOLD_BETA :: real where
  "LIQ_THRESHOLD_BETA = 5 / 100"

definition isLiquidation :: "real \<Rightarrow> real \<Rightarrow> bool" where
  "isLiquidation equity imAmount \<longleftrightarrow> equity \<le> LIQ_THRESHOLD_BETA * imAmount"

subsection \<open>App.jsx: markets, positions and the component state\<close>

text \<open>The object \<^verbatim>\<open>polymarketToBube\<close> returns; \<^verbatim>\<open>outcome: null\<close> is \<open>None\<close>.\<close>

record market =
  m_id :: string
  m_source :: string
  m_polyId :: string
  m_slug :: "string option"
  m_question :: "string option"
  m_description :: string
  m_currentP :: real
  m_status :: status
  m_outcome :: "real option"

text \<open>The object \<^verbatim>\<open>handleOpenPosition\<close> builds.\<close>

record position =
  p_id :: string
  p_marketId :: string
  p_marketName :: "string option"
  p_side :: side
  p_notional :: real
  p_imPct :: real
  p_imAmount :: real
  p_entryP :: real
  p_currentP :: real
  p_pnl :: real
  p_equity :: real
  p_status :: status

text \<open>
  The \<^verbatim>\<open>useState\<close> cells of \<^verbatim>\<open>App\<close> that the handlers read or write. The form
  cells \<^verbatim>\<open>side\<close>, \<^verbatim>\<open>notional\<close> and \<^verbatim>\<open>imPct\<close> carry the prefix \<^verbatim>\<open>st_\<close>.
\<close>

record app =
  markets :: "market list"
  positions :: "position list"
  selectedMarketId :: "string option"
  adminMarketId :: "string option"
  st_side :: side
  st_notional :: real
  st_imPct :: real
  manualProb :: real
  settleOutcome :: real

text \<open>\<^verbatim>\<open>markets.find(m => m.id === selectedMarketId) || null\<close>, and the same for the
  admin market.\<close>

definition selectedMarket :: "app \<Rightarrow> market option" where
  "selectedMarket st =
     (case selectedMarketId st of
        None \<Rightarrow> None
      | Some i \<Rightarrow> find (\<lambda>m. m_id m = i) (markets st))"

definition adminMarket :: "app \<Rightarrow> market option" where
  "adminMarket st =
     (case adminMarketId st of
        None \<Rightarrow> None
      | Some i \<Rightarrow> find (\<lambda>m. m_id m = i) (markets st))"

text \<open>
  The effect \<^verbatim>\<open>useEffect(..., [markets])\<close>: the callback of \<^verbatim>\<open>prev.map\<close> first,
  then the effect itself. React runs it after every render in which the
  \<^verbatim>\<open>markets\<close> array was replaced.
\<close>

definition recomputePosition :: "market list \<Rightarrow> position \<Rightarrow> position" where
  "recomputePosition ms pos =
     (case find (\<lambda>mm. m_id mm = p_marketId pos) ms of
        None \<Rightarrow> pos
      | Some m \<Rightarrow>
          if p_status pos \<noteq> OPEN then pos
          else
            (let pnl = pdPnl (p_notional pos) (p_entryP pos) (m_currentP m) (p_side pos);
                 equity = computeEquity (p_imAmount pos) pnl;
                 updated = pos\<lparr>p_currentP := m_currentP m, p_pnl := pnl, p_equity := equity\<rparr>
             in if isLiquidation equity (p_imAmount pos)
                then updated\<lparr>p_status := LIQUIDATED\<rparr>
                else updated))"

definition recomputeEffect :: "app \<Rightarrow> app" where
  "recomputeEffect st =
     (if markets st = [] then st
      else st\<lparr>positions := map (recomputePosition (markets st)) (positions st)\<rparr>)"

text \<open>\<^verbatim>\<open>handleOpenPosition\<close>; the identifier \<^verbatim>\<open>crypto.randomUUID()\<close> draws is an
  argument. \<^verbatim>\<open>selectedMarket.currentP ?? 0\<close> is the market's number, which is never
  null here.\<close>

definition handleOpenPosition :: "string \<Rightarrow> app \<Rightarrow> app" where
  "handleOpenPosition newId st =
     (case selectedMarket st of
        None \<Rightarrow> st
      | Some sm \<Rightarrow>
          if st_notional st \<le> 0 then st
          else
            (let imAmount = (st_notional st * st_imPct st) / 100;
                 entryP = m_currentP sm;
                 newPos = \<lparr>p_id = newId,
                           p_marketId = m_id sm,
                           p_marketName = m_question sm,
                           p_side = st_side st,
                           p_notional = st_notional st,
                           p_imPct = st_imPct st,
                           p_imAmount = imAmount,
                           p_entryP = entryP,
                           p_currentP = entryP,
                           p_pnl = 0,
                           p_equity = imAmount,
                           p_status = OPEN\<rparr>
             in st\<lparr>positions := positions st @ [newPos]\<rparr>))"

definition handleManualProbApply :: "app \<Rightarrow> app" where
  "handleManualProbApply st =
     (case adminMarket st of
        None \<Rightarrow> st
      | Some am \<Rightarrow>
          (let p = min 1 (max 0 (manualProb st))
           in st\<lparr>markets :=
                  map (\<lambda>m. if m_id m = m_id am then m\<lparr>m_currentP := p\<rparr> else m) (markets st)\<rparr>))"

text \<open>\<^verbatim>\<open>handleSettle\<close>: the callback that finalizes one position, then the handler.\<close>

definition settlePosition :: "string \<Rightarrow> real \<Rightarrow> position \<Rightarrow> position" where
  "settlePosition adminId outcome pos =
     (if p_marketId pos \<noteq> adminId then pos
      else if p_status pos = SETTLED then pos
      else if p_status pos = LIQUIDATED then pos\<lparr>p_status := SETTLED\<rparr>
      else
        (let finalPnl = pdPnl (p_notional pos) (p_entryP pos) outcome (p_side pos);
             equity = computeEquity (p_imAmount pos) finalPnl
         in pos\<lparr>p_currentP := outcome, p_pnl := finalPnl, p_equity := equity,
                 p_status := SETTLED\<rparr>))"

definition handleSettle :: "app \<Rightarrow> app" where
  "handleSettle st =
     (case adminMarket st of
        None \<Rightarrow> st
      | Some am \<Rightarrow>
          (let outcome = (if settleOutcome st = 1 then 1 else 0)
           in st\<lparr>markets :=
                    map (\<lambda>m. if m_id m = m_id am
                              then m\<lparr>m_status := SETTLED, m_outcome := Some outcome\<rparr>
                              else m) (markets st),
                  positions := map (settlePosition (m_id am) outcome) (positions st)\<rparr>))"

subsection \<open>The provider's answer, as both front ends read it\<close>

text \<open>A JSON value, as \<^verbatim>\<open>JSON.parse\<close> and \<^verbatim>\<open>json.loads\<close> return it.\<close>

datatype json =
  JNull | JBool bool | JNum real | JStr string | JArr "json list" | JObj "(string \<times> json) list"

text \<open>
  The field \<^verbatim>\<open>outcomes\<close> or \<^verbatim>\<open>outcomePrices\<close> of a candidate market, which the provider
  sends as a string of JSON text. The two parsers are library code, so a field is
  given with what the parser makes of it:
  \<^item> \<open>Absent\<close>: the candidate has no such key;
  \<^item> \<open>Null\<close>: the key is there with the value \<^verbatim>\<open>null\<close>;
  \<^item> \<open>Text r\<close>: the value is a string, and parsing it gives \<open>r\<close> (\<open>None\<close> when the
    parser rejects the text);
  \<^item> \<open>Other r\<close>: the value is neither a string nor \<^verbatim>\<open>null\<close>. \<^verbatim>\<open>JSON.parse\<close> parses its
    string form, which gives \<open>r\<close>; \<^verbatim>\<open>json.loads\<close> raises \<^verbatim>\<open>TypeError\<close>.
\<close>

datatype field = Absent | Null | Text "json option" | Other "json option"

text \<open>
  A candidate market of the provider's list. \<^verbatim>\<open>r_active\<close> and \<^verbatim>\<open>r_closed\<close> are the truth
  values of \<^verbatim>\<open>m.active\<close> and \<^verbatim>\<open>m.closed\<close> (an absent flag counts as false in both
  sources); the title, description and slug may be absent.
\<close>

record raw_market =
  r_id :: string
  r_active :: bool
  r_closed :: bool
  r_outcomes :: field
  r_outcomePrices :: field
  r_question :: "string option"
  r_description :: "string option"
  r_slug :: "string option"

text \<open>
  What the HTTP request gives: no answer at all, a status that is not ok, a body
  that is not a JSON list of candidates, or such a list.
\<close>

datatype response = No_Answer | Not_Ok nat | Bad_Body | Json_Body "raw_market list"

datatype error =
  Fetch_Failed | Api_Error nat | Body_Error | KeyError | TypeError | ValueError | IndexError
  | JSONDecodeError

subsection \<open>pdEngine.js: the Polymarket fetchers\<close>

text \<open>\<^verbatim>\<open>JSON.parse(m.outcomes ?? '[]')\<close>: \<^verbatim>\<open>??\<close> replaces an absent key and \<^verbatim>\<open>null\<close>
  alike; \<open>None\<close> is the exception.\<close>

definition parse_or_empty :: "field \<Rightarrow> json option" where
  "parse_or_empty f =
     (case f of
        Absent \<Rightarrow> Some (JArr [])
      | Null \<Rightarrow> Some (JArr [])
      | Text r \<Rightarrow> r
      | Other r \<Rightarrow> r)"

text \<open>\<^verbatim>\<open>!Array.isArray(outs) || outs.length !== 2\<close>\<close>

definition not_two_outcomes :: "json \<Rightarrow> bool" where
  "not_two_outcomes outs = (case outs of JArr xs \<Rightarrow> length xs \<noteq> 2 | _ \<Rightarrow> True)"

text \<open>The \<^verbatim>\<open>for (const m of data)\<close> loop, with \<^verbatim>\<open>selected\<close> as accumulator.\<close>

fun select_markets :: "nat \<Rightarrow> raw_market list \<Rightarrow> raw_market list \<Rightarrow> raw_market list" where
  "select_markets maxMarkets [] selected = selected"
| "select_markets maxMarkets (m # data) selected =
     (if \<not> r_active m \<or> r_closed m then select_markets maxMarkets data selected
      else
        (case parse_or_empty (r_outcomes m) of
           None \<Rightarrow> select_markets maxMarkets data selected
         | Some outs \<Rightarrow>
             if not_two_outcomes outs then select_markets maxMarkets data selected
             else
               (let selected' = selected @ [m]
                in if length selected' \<ge> maxMarkets then selected'
                   else select_markets maxMarkets data selected')))"

definition fetchPolymarketMarkets :: "nat \<Rightarrow> response \<Rightarrow> error + raw_market list" where
  "fetchPolymarketMarkets maxMarkets res =
     (case res of
        No_Answer \<Rightarrow> Inl Fetch_Failed
      | Not_Ok code \<Rightarrow> Inl (Api_Error code)
      | Bad_Body \<Rightarrow> Inl Body_Error
      | Json_Body data \<Rightarrow> Inr (select_markets maxMarkets data []))"

text \<open>
  \<^verbatim>\<open>polymarketToBube\<close>. The conversion \<^verbatim>\<open>Number(prices[0])\<close> is the language's own:
  it is the argument \<open>Number\<close>. \<^verbatim>\<open>prices[0] != null\<close> fails on an empty array and
  on a first element \<^verbatim>\<open>null\<close>.
\<close>

definition pYes_of :: "(json \<Rightarrow> real) \<Rightarrow> field \<Rightarrow> real" where
  "pYes_of Number f =
     (case parse_or_empty f of
        None \<Rightarrow> 0
      | Some prices \<Rightarrow>
          (case prices of
             JArr (x # xs) \<Rightarrow> if x \<noteq> JNull then Number x else 0
           | _ \<Rightarrow> 0))"

definition polymarketToBube :: "(json \<Rightarrow> real) \<Rightarrow> raw_market \<Rightarrow> market" where
  "polymarketToBube Number m =
     (let pYes = pYes_of Number (r_outcomePrices m)
      in \<lparr>m_id = ''poly-'' @ r_id m,
          m_source = ''polymarket'',
          m_polyId = r_id m,
          m_slug = r_slug m,
          m_question = r_question m,
          m_description = (case r_description m of None \<Rightarrow> [] | Some d \<Rightarrow> d),
          m_currentP = pYes,
          m_status = OPEN,
          m_outcome = None\<rparr>)"

text \<open>
  \<^verbatim>\<open>byId[adminMarket.polyId]\<close>, where \<^verbatim>\<open>byId\<close> is the plain object that
  \<^verbatim>\<open>Object.fromEntries(raw.map(m => [m.id, m]))\<close> builds. The object keeps the last
  candidate of each id. A key that no candidate has is looked up in
  \<^verbatim>\<open>Object.prototype\<close>: for the names below the result is the inherited member (a
  function, or the prototype itself for \<^verbatim>\<open>__proto__\<close>), which is truthy and has none
  of a candidate's fields. \<open>no_fields\<close> is such a value as \<^verbatim>\<open>polymarketToBube\<close> reads
  it: its \<^verbatim>\<open>id\<close> is \<^verbatim>\<open>undefined\<close>, which the template literal prints as that word.
\<close>

definition object_prototype_keys :: "string list" where
  "object_prototype_keys =
     [''constructor'', ''hasOwnProperty'', ''isPrototypeOf'', ''propertyIsEnumerable'',
      ''toLocaleString'', ''toString'', ''valueOf'', ''__proto__'',
      ''__defineGetter__'', ''__defineSetter__'', ''__lookupGetter__'', ''__lookupSetter__'']"

definition no_fields :: raw_market where
  "no_fields =
     \<lparr>r_id = ''undefined'', r_active = False, r_closed = False, r_outcomes = Absent,
      r_outcomePrices = Absent, r_question = None, r_description = None, r_slug = None\<rparr>"

definition byId_lookup :: "raw_market list \<Rightarrow> string \<Rightarrow> raw_market option" where
  "byId_lookup raw k =
     (case find (\<lambda>m. r_id m = k) (rev raw) of
        Some pm \<Rightarrow> Some pm
      | None \<Rightarrow> if k \<in> set object_prototype_keys then Some no_fields else None)"

text \<open>
  \<^verbatim>\<open>handleRefreshFromPolymarket\<close>, given the answer to its request. The alerts
  change no state.
\<close>

definition handleRefreshFromPolymarket :: "(json \<Rightarrow> real) \<Rightarrow> response \<Rightarrow> app \<Rightarrow> app" where
  "handleRefreshFromPolymarket Number res st =
     (case adminMarket st of
        None \<Rightarrow> st
      | Some am \<Rightarrow>
          if m_source am \<noteq> ''polymarket'' then st
          else
            (case fetchPolymarketMarkets 50 res of
               Inl err \<Rightarrow> st
             | Inr raw \<Rightarrow>
                 (case byId_lookup raw (m_polyId am) of
                    None \<Rightarrow> st
                  | Some pm \<Rightarrow>
                      (let mapped = polymarketToBube Number pm
                       in st\<lparr>markets :=
                                map (\<lambda>m. if m_id m = m_id am
                                          then m\<lparr>m_currentP := m_currentP mapped,
                                                 m_question := m_question mapped,
                                                 m_description := m_description mapped\<rparr>
                                          else m) (markets st),
                              manualProb := m_currentP mapped\<rparr>))))"

text \<open>The effect on mount: \<^verbatim>\<open>load()\<close>, given the answer to its request.\<close>

definition load :: "(json \<Rightarrow> real) \<Rightarrow> response \<Rightarrow> app \<Rightarrow> app" where
  "load Number res st =
     (case fetchPolymarketMarkets 15 res of
        Inl err \<Rightarrow> st
      | Inr raw \<Rightarrow>
          (let mapped = map (polymarketToBube Number) raw
           in case mapped of
                [] \<Rightarrow> st\<lparr>markets := mapped\<rparr>
              | m0 # rest \<Rightarrow>
                  st\<lparr>markets := mapped,
                     selectedMarketId := Some (m_id m0),
                     adminMarketId := Some (m_id m0),
                     manualProb := m_currentP m0\<rparr>))"

subsection \<open>The Streamlit script: data models and the PD math\<close>

text \<open>
  The dictionaries of \<^verbatim>\<open>st.session_state.markets\<close>: \<^verbatim>\<open>asdict(Market(...))\<close> for a
  local market, the result of \<^verbatim>\<open>polymarket_market_to_bube\<close> otherwise (the keys
  \<^verbatim>\<open>source\<close>, \<^verbatim>\<open>poly_id\<close> and \<^verbatim>\<open>poly_slug\<close> are absent from a local market).
\<close>

record py_market =
  pm_id :: string
  pm_name :: string
  pm_description :: string
  pm_current_p :: real
  pm_status :: status
  pm_outcome :: "real option"
  pm_source :: "string option"
  pm_poly_id :: "string option"
  pm_poly_slug :: "string option"

text \<open>\<^verbatim>\<open>asdict(Position(...))\<close>\<close>

record py_position =
  pp_id :: string
  pp_user_id :: string
  pp_market_id :: string
  pp_side :: side
  pp_notional :: real
  pp_im_pct :: real
  pp_im_amount :: real
  pp_entry_p :: real
  pp_current_p :: real
  pp_pnl :: real
  pp_equity :: real
  pp_status :: status

text \<open>\<^verbatim>\<open>st.session_state\<close>: the markets by id, and the list of positions.\<close>

record session_state =
  ss_markets :: "string \<rightharpoonup> py_market"
  ss_positions :: "py_position list"

definition py_LIQ_THRESHOLD_BETA :: real where
  "py_LIQ_THRESHOLD_BETA = 5 / 100"

definition pd_pnl :: "real \<Rightarrow> real \<Rightarrow> real \<Rightarrow> side \<Rightarrow> real" where
  "pd_pnl notional p_entry p_current sd =
     (let s = (if sd = LONG then 1 else - 1);
          delta_p = p_current - p_entry
      in notional * delta_p * s)"

definition compute_equity :: "real \<Rightarrow> real \<Rightarrow> real" where
  "compute_equity im_amount pnl = im_amount + pnl"

definition is_liquidation :: "real \<Rightarrow> real \<Rightarrow> bool" where
  "is_liquidation equity im_amount \<longleftrightarrow> equity \<le> py_LIQ_THRESHOLD_BETA * im_amount"

subsection \<open>The Streamlit script: update and settle\<close>

text \<open>
  \<^verbatim>\<open>update_positions_for_market\<close>: the body of its loop, then the function.
  \<^verbatim>\<open>markets[market_id]\<close> raises \<^verbatim>\<open>KeyError\<close> on an unknown id, before anything is
  written.
\<close>

definition update_position :: "string \<Rightarrow> real \<Rightarrow> py_position \<Rightarrow> py_position" where
  "update_position market_id current_p pos =
     (if pp_market_id pos \<noteq> market_id then pos
      else if pp_status pos \<noteq> OPEN then pos
      else
        (let pnl = pd_pnl (pp_notional pos) (pp_entry_p pos) current_p (pp_side pos);
             equity = compute_equity (pp_im_amount pos) pnl;
             pos' = pos\<lparr>pp_pnl := pnl, pp_equity := equity, pp_current_p := current_p\<rparr>
         in if is_liquidation equity (pp_im_amount pos)
            then pos'\<lparr>pp_status := LIQUIDATED\<rparr>
            else pos'))"

definition update_positions_for_market :: "string \<Rightarrow> session_state \<Rightarrow> error + session_state" where
  "update_positions_for_market market_id s =
     (case ss_markets s market_id of
        None \<Rightarrow> Inl KeyError
      | Some m \<Rightarrow>
          Inr (s\<lparr>ss_positions :=
                   map (update_position market_id (pm_current_p m)) (ss_positions s)\<rparr>))"

text \<open>\<^verbatim>\<open>settle_market\<close>: the body of its loop, then the function.\<close>

definition settle_position :: "string \<Rightarrow> real \<Rightarrow> py_position \<Rightarrow> py_position" where
  "settle_position market_id outcome pos =
     (if pp_market_id pos \<noteq> market_id then pos
      else if pp_status pos = SETTLED then pos
      else if pp_status pos = LIQUIDATED then pos\<lparr>pp_status := SETTLED\<rparr>
      else
        (let final_pnl = pd_pnl (pp_notional pos) (pp_entry_p pos) outcome (pp_side pos)
         in pos\<lparr>pp_pnl := final_pnl,
                 pp_equity := compute_equity (pp_im_amount pos) final_pnl,
                 pp_current_p := outcome,
                 pp_status := SETTLED\<rparr>))"

definition settle_market :: "string \<Rightarrow> real \<Rightarrow> session_state \<Rightarrow> error + session_state" where
  "settle_market market_id outcome s =
     (case ss_markets s market_id of
        None \<Rightarrow> Inl KeyError
      | Some m \<Rightarrow>
          Inr (s\<lparr>ss_markets :=
                   (ss_markets s)(market_id \<mapsto> m\<lparr>pm_status := SETTLED, pm_outcome := Some outcome\<rparr>),
                 ss_positions := map (settle_position market_id outcome) (ss_positions s)\<rparr>))"

subsection \<open>The Streamlit script: the button handlers of \<^verbatim>\<open>main\<close>\<close>

text \<open>
  What a handler shows: \<^verbatim>\<open>st.error\<close>, \<^verbatim>\<open>st.warning\<close>, \<^verbatim>\<open>st.success\<close> or \<^verbatim>\<open>st.info\<close>.
  A handler that shows something returns it with the session state it leaves.
  The script also calls \<^verbatim>\<open>update_positions_for_market\<close> for every market while it
  renders the positions table; rendering is not part of the handlers below.
\<close>

datatype shown = Error_Shown | Warning_Shown | Success_Shown | Info_Shown

text \<open>
  The handler of the button \<^verbatim>\<open>Open Position\<close>. Its arguments are the identifier
  \<^verbatim>\<open>uuid.uuid4()\<close> draws, the current user, the selected market (a key of the
  markets, the script reads it from them) and the form's values;
  \<^verbatim>\<open>im_pct\<close> is already \<^verbatim>\<open>im_pct_view / 100.0\<close>.
\<close>

definition open_position_button ::
  "string \<Rightarrow> string \<Rightarrow> string \<Rightarrow> side \<Rightarrow> real \<Rightarrow> real \<Rightarrow> session_state \<Rightarrow> error + shown \<times> session_state"
where
  "open_position_button new_id current_user_id selected_market_id side_value notional im_pct s =
     (case ss_markets s selected_market_id of
        None \<Rightarrow> Inl KeyError
      | Some m \<Rightarrow>
          if pm_status m \<noteq> OPEN then Inr (Error_Shown, s)
          else if notional \<le> 0 then Inr (Error_Shown, s)
          else
            (let im_amount = notional * im_pct;
                 entry_p = pm_current_p m;
                 pnl = 0;
                 equity = im_amount;
                 pos = \<lparr>pp_id = new_id,
                        pp_user_id = current_user_id,
                        pp_market_id = selected_market_id,
                        pp_side = side_value,
                        pp_notional = notional,
                        pp_im_pct = im_pct,
                        pp_im_amount = im_amount,
                        pp_entry_p = entry_p,
                        pp_current_p = entry_p,
                        pp_pnl = pnl,
                        pp_equity = equity,
                        pp_status = OPEN\<rparr>
             in Inr (Success_Shown, s\<lparr>ss_positions := ss_positions s @ [pos]\<rparr>)))"

text \<open>The handler of the button \<^verbatim>\<open>Apply manual probability\<close> (key \<^verbatim>\<open>manual_prob\<close>).\<close>

definition manual_prob_button :: "string \<Rightarrow> real \<Rightarrow> session_state \<Rightarrow> error + session_state" where
  "manual_prob_button adm_mid new_p s =
     (case ss_markets s adm_mid of
        None \<Rightarrow> Inl KeyError
      | Some m \<Rightarrow>
          update_positions_for_market adm_mid
            (s\<lparr>ss_markets := (ss_markets s)(adm_mid \<mapsto> m\<lparr>pm_current_p := new_p\<rparr>)\<rparr>))"

text \<open>The handler of the button \<^verbatim>\<open>Settle market with outcome\<close>.\<close>

definition settle_button :: "string \<Rightarrow> real \<Rightarrow> session_state \<Rightarrow> error + session_state" where
  "settle_button adm_mid outcome s = settle_market adm_mid outcome s"

subsection \<open>The Streamlit script: the Polymarket integration\<close>

text \<open>
  Python's \<^verbatim>\<open>len\<close>, truth value and \<^verbatim>\<open>[0]\<close> on what \<^verbatim>\<open>json.loads\<close> returns. A number,
  a boolean and \<^verbatim>\<open>None\<close> have no length and no subscript (\<^verbatim>\<open>TypeError\<close>); a
  dictionary has string keys, so \<^verbatim>\<open>[0]\<close> on it is a \<^verbatim>\<open>KeyError\<close>.
\<close>

definition py_len :: "json \<Rightarrow> error + nat" where
  "py_len j =
     (case j of
        JArr xs \<Rightarrow> Inr (length xs)
      | JStr cs \<Rightarrow> Inr (length cs)
      | JObj kvs \<Rightarrow> Inr (length (remdups (map fst kvs)))
      | _ \<Rightarrow> Inl TypeError)"

definition truthy :: "json \<Rightarrow> bool" where
  "truthy j =
     (case j of
        JNull \<Rightarrow> False
      | JBool b \<Rightarrow> b
      | JNum r \<Rightarrow> r \<noteq> 0
      | JStr cs \<Rightarrow> cs \<noteq> []
      | JArr xs \<Rightarrow> xs \<noteq> []
      | JObj kvs \<Rightarrow> kvs \<noteq> [])"

definition subscript0 :: "json \<Rightarrow> error + json" where
  "subscript0 j =
     (case j of
        JArr xs \<Rightarrow> (case xs of [] \<Rightarrow> Inl IndexError | x # _ \<Rightarrow> Inr x)
      | JStr cs \<Rightarrow> (case cs of [] \<Rightarrow> Inl IndexError | c # _ \<Rightarrow> Inr (JStr [c]))
      | JObj kvs \<Rightarrow> Inl KeyError
      | _ \<Rightarrow> Inl TypeError)"

text \<open>
  \<^verbatim>\<open>json.loads(m.get("outcomes", "[]"))\<close>: the default stands in for an absent key
  only. A value that is not a string (\<^verbatim>\<open>None\<close> included) raises \<^verbatim>\<open>TypeError\<close>, a
  string that is not JSON raises \<^verbatim>\<open>JSONDecodeError\<close>.
\<close>

definition loads_or_empty :: "field \<Rightarrow> error + json" where
  "loads_or_empty f =
     (case f of
        Absent \<Rightarrow> Inr (JArr [])
      | Null \<Rightarrow> Inl TypeError
      | Text r \<Rightarrow> (case r of None \<Rightarrow> Inl JSONDecodeError | Some j \<Rightarrow> Inr j)
      | Other r \<Rightarrow> Inl TypeError)"

text \<open>
  The loop of \<^verbatim>\<open>fetch_polymarket_markets\<close>. \<^verbatim>\<open>except json.JSONDecodeError\<close> skips the
  candidate; a \<^verbatim>\<open>TypeError\<close> of \<^verbatim>\<open>json.loads\<close> or of \<^verbatim>\<open>len\<close> is not caught and ends
  the call.
\<close>

fun py_select ::
  "nat \<Rightarrow> bool \<Rightarrow> bool \<Rightarrow> raw_market list \<Rightarrow> raw_market list \<Rightarrow> error + raw_market list"
where
  "py_select max_markets require_yes_no only_open [] selected = Inr selected"
| "py_select max_markets require_yes_no only_open (m # data) selected =
     (if only_open \<and> (\<not> r_active m \<or> r_closed m)
      then py_select max_markets require_yes_no only_open data selected
      else
        (case (if require_yes_no
               then (case loads_or_empty (r_outcomes m) of
                       Inl e \<Rightarrow> if e = JSONDecodeError then Inr False else Inl e
                     | Inr outs \<Rightarrow>
                         (case py_len outs of Inl e \<Rightarrow> Inl e | Inr n \<Rightarrow> Inr (n = 2)))
               else Inr True) of
           Inl e \<Rightarrow> Inl e
         | Inr False \<Rightarrow> py_select max_markets require_yes_no only_open data selected
         | Inr True \<Rightarrow>
             (let selected' = selected @ [m]
              in if length selected' \<ge> max_markets then Inr selected'
                 else py_select max_markets require_yes_no only_open data selected')))"

definition fetch_polymarket_markets ::
  "nat \<Rightarrow> bool \<Rightarrow> bool \<Rightarrow> response \<Rightarrow> error + raw_market list"
where
  "fetch_polymarket_markets max_markets require_yes_no only_open resp =
     (case resp of
        No_Answer \<Rightarrow> Inl Fetch_Failed
      | Not_Ok code \<Rightarrow> Inl (Api_Error code)
      | Bad_Body \<Rightarrow> Inl Body_Error
      | Json_Body data \<Rightarrow> py_select max_markets require_yes_no only_open data [])"

text \<open>
  \<^verbatim>\<open>polymarket_market_to_bube\<close>. Python's \<^verbatim>\<open>float\<close> is the argument \<open>float\<close>. The
  \<^verbatim>\<open>except\<close> clause catches \<^verbatim>\<open>JSONDecodeError\<close>, \<^verbatim>\<open>ValueError\<close> and \<^verbatim>\<open>IndexError\<close>, and
  nothing else.
\<close>

definition caught :: "error \<Rightarrow> bool" where
  "caught e \<longleftrightarrow> e = JSONDecodeError \<or> e = ValueError \<or> e = IndexError"

definition p_yes_of :: "(json \<Rightarrow> error + real) \<Rightarrow> field \<Rightarrow> error + real" where
  "p_yes_of float f =
     (case loads_or_empty f of
        Inl e \<Rightarrow> if caught e then Inr 0 else Inl e
      | Inr prices \<Rightarrow>
          if \<not> truthy prices then Inr 0
          else
            (case subscript0 prices of
               Inl e \<Rightarrow> if caught e then Inr 0 else Inl e
             | Inr x \<Rightarrow>
                 (case float x of
                    Inl e \<Rightarrow> if caught e then Inr 0 else Inl e
                  | Inr r \<Rightarrow> Inr r)))"

definition polymarket_market_to_bube ::
  "(json \<Rightarrow> error + real) \<Rightarrow> raw_market \<Rightarrow> error + py_market"
where
  "polymarket_market_to_bube float m =
     (case p_yes_of float (r_outcomePrices m) of
        Inl e \<Rightarrow> Inl e
      | Inr p_yes \<Rightarrow>
          (let description = (case r_description m of None \<Rightarrow> [] | Some d \<Rightarrow> d)
           in Inr \<lparr>pm_id = ''poly-'' @ r_id m,
                   pm_name = (case r_question m of
                                None \<Rightarrow> ''Polymarket '' @ r_id m
                              | Some q \<Rightarrow> q),
                   pm_description = description,
                   pm_current_p = p_yes,
                   pm_status = OPEN,
                   pm_outcome = None,
                   pm_source = Some ''polymarket'',
                   pm_poly_id = Some (r_id m),
                   pm_poly_slug = r_slug m\<rparr>))"

text \<open>
  The handler of the button \<^verbatim>\<open>Pull latest Polymarket price\<close> (key
  \<^verbatim>\<open>refresh_poly\<close>), given the answer to its request. The dictionary
  \<^verbatim>\<open>poly_by_id\<close> keeps the last candidate of each id. \<^verbatim>\<open>except Exception\<close> shows
  the error and leaves what was written before it.
\<close>

definition refresh_poly_button ::
  "(json \<Rightarrow> error + real) \<Rightarrow> response \<Rightarrow> string \<Rightarrow> session_state \<Rightarrow> error + shown \<times> session_state"
where
  "refresh_poly_button float resp adm_mid s =
     (case ss_markets s adm_mid of
        None \<Rightarrow> Inl KeyError
      | Some adm_m \<Rightarrow>
          if pm_source adm_m \<noteq> Some ''polymarket'' then Inr (Info_Shown, s)
          else
            (case fetch_polymarket_markets 200 True True resp of
               Inl e \<Rightarrow> Inr (Error_Shown, s)
             | Inr poly_markets \<Rightarrow>
                 (case (case pm_poly_id adm_m of
                          None \<Rightarrow> None
                        | Some poly_id \<Rightarrow> find (\<lambda>m. r_id m = poly_id) (rev poly_markets)) of
                    None \<Rightarrow> Inr (Warning_Shown, s)
                  | Some pm \<Rightarrow>
                      (case polymarket_market_to_bube float pm of
                         Inl e \<Rightarrow> Inr (Error_Shown, s)
                       | Inr bm \<Rightarrow>
                           (let s1 = s\<lparr>ss_markets := (ss_markets s)(adm_mid \<mapsto>
                                         adm_m\<lparr>pm_current_p := pm_current_p bm,
                                               pm_name := pm_name bm,
                                               pm_description := pm_description bm\<rparr>)\<rparr>
                            in case update_positions_for_market adm_mid s1 of
                                 Inl e \<Rightarrow> Inr (Error_Shown, s1)
                               | Inr s2 \<Rightarrow> Inr (Success_Shown, s2))))))"

subsection \<open>Driving the two front ends\<close>

text \<open>The sign of a side, as the pricing contract words it.\<close>

primrec side_sign :: "side \<Rightarrow> real" where
  "side_sign LONG = 1"
| "side_sign SHORT = - 1"

text \<open>
  The four operations of the interface are, in the React app, the handlers
  \<^verbatim>\<open>handleOpenPosition\<close>, \<^verbatim>\<open>handleManualProbApply\<close>, \<^verbatim>\<open>handleSettle\<close> and
  \<^verbatim>\<open>handleRefreshFromPolymarket\<close>, each followed by the recompute effect when it
  replaced the \<^verbatim>\<open>markets\<close> array; in the Streamlit script they are the four button
  handlers, which call \<^verbatim>\<open>update_positions_for_market\<close> and \<^verbatim>\<open>settle_market\<close>.

  A click on \<^verbatim>\<open>Apply and recompute P&L\<close>: \<^verbatim>\<open>handleManualProbApply\<close> replaces the
  \<^verbatim>\<open>markets\<close> array when an admin market is selected, and the effect follows.
  A click on \<^verbatim>\<open>Settle Market\<close> likewise.
\<close>

definition applyAndRecompute :: "app \<Rightarrow> app" where
  "applyAndRecompute st =
     (case adminMarket st of
        None \<Rightarrow> st
      | Some am \<Rightarrow> recomputeEffect (handleManualProbApply st))"

definition settleAndRecompute :: "app \<Rightarrow> app" where
  "settleAndRecompute st =
     (case adminMarket st of
        None \<Rightarrow> st
      | Some am \<Rightarrow> recomputeEffect (handleSettle st))"

text \<open>
  Any number of price updates in the React app, one after the other: each picks the
  admin market and the probability in the form, then clicks.
\<close>

fun price_updates :: "(string \<times> real) list \<Rightarrow> app \<Rightarrow> app" where
  "price_updates [] st = st"
| "price_updates ((mid, p) # us) st =
     price_updates us (applyAndRecompute (st\<lparr>adminMarketId := Some mid, manualProb := p\<rparr>))"

subsection \<open>Concrete markets and positions\<close>

text \<open>The worked examples: a long position of one million at 10% margin entered at
  probability 0.50, and a short one of half a million entered at 0.41.\<close>

definition ex_market :: "string \<Rightarrow> real \<Rightarrow> market" where
  "ex_market n p =
     \<lparr>m_id = ''poly-'' @ n, m_source = ''polymarket'', m_polyId = n, m_slug = None,
      m_question = None, m_description = [], m_currentP = p, m_status = OPEN,
      m_outcome = None\<rparr>"

definition ex_app :: app where
  "ex_app =
     \<lparr>markets = [ex_market ''1'' (1 / 2), ex_market ''2'' (41 / 100)],
      positions = [],
      selectedMarketId = Some ''poly-1'',
      adminMarketId = Some ''poly-1'',
      st_side = LONG,
      st_notional = 1000000,
      st_imPct = 10,
      manualProb = 4 / 10,
      settleOutcome = 1\<rparr>"

definition ex_settled_app :: app where
  "ex_settled_app =
     ex_app\<lparr>markets := [(ex_market ''1'' (1 / 2))\<lparr>m_status := SETTLED, m_outcome := Some 1\<rparr>,
                         ex_market ''2'' (41 / 100)],
            settleOutcome := 0\<rparr>"

definition ex_zero_margin_app :: app where
  "ex_zero_margin_app = ex_app\<lparr>selectedMarketId := Some ''poly-2'', st_imPct := 0\<rparr>"

definition ex_position :: position where
  "ex_position =
     \<lparr>p_id = ''pos-1'', p_marketId = ''poly-1'', p_marketName = None,
      p_side = LONG, p_notional = 1000000, p_imPct = 10, p_imAmount = 100000,
      p_entryP = 1 / 2, p_currentP = 1 / 2, p_pnl = 0, p_equity = 100000, p_status = OPEN\<rparr>"

definition ex_short :: position where
  "ex_short =
     \<lparr>p_id = ''pos-2'', p_marketId = ''poly-2'', p_marketName = None,
      p_side = SHORT, p_notional = 500000, p_imPct = 10, p_imAmount = 50000,
      p_entryP = 41 / 100, p_currentP = 41 / 100, p_pnl = 0, p_equity = 50000,
      p_status = OPEN\<rparr>"

definition ex_liquidated :: position where
  "ex_liquidated =
     \<lparr>p_id = ''pos-3'', p_marketId = ''poly-2'', p_marketName = None,
      p_side = LONG, p_notional = 1000000, p_imPct = 10, p_imAmount = 100000,
      p_entryP = 1 / 2, p_currentP = 4 / 10, p_pnl = - 100000, p_equity = 0,
      p_status = LIQUIDATED\<rparr>"

definition ex_py_market :: "string \<Rightarrow> real \<Rightarrow> py_market" where
  "ex_py_market n p =
     \<lparr>pm_id = ''poly-'' @ n, pm_name = ''Polymarket '' @ n, pm_description = [],
      pm_current_p = p, pm_status = OPEN, pm_outcome = None,
      pm_source = Some ''polymarket'', pm_poly_id = Some n, pm_poly_slug = None\<rparr>"

definition ex_session :: session_state where
  "ex_session =
     \<lparr>ss_markets = [''poly-1'' \<mapsto> ex_py_market ''1'' (1 / 2),
                    ''poly-2'' \<mapsto> ex_py_market ''2'' (41 / 100)],
      ss_positions = []\<rparr>"

definition ex_settled_session :: session_state where
  "ex_settled_session =
     ex_session\<lparr>ss_markets := (ss_markets ex_session)
        (''poly-1'' \<mapsto> (ex_py_market ''1'' (1 / 2))\<lparr>pm_status := SETTLED, pm_outcome := Some 1\<rparr>)\<rparr>"

definition ex_py_position :: py_position where
  "ex_py_position =
     \<lparr>pp_id = ''pos-1'', pp_user_id = ''u-1'', pp_market_id = ''poly-1'', pp_side = LONG,
      pp_notional = 1000000, pp_im_pct = 1 / 10, pp_im_amount = 100000, pp_entry_p = 1 / 2,
      pp_current_p = 1 / 2, pp_pnl = 0, pp_equity = 100000, pp_status = OPEN\<rparr>"

definition ex_py_short :: py_position where
  "ex_py_short =
     \<lparr>pp_id = ''pos-2'', pp_user_id = ''u-1'', pp_market_id = ''poly-2'', pp_side = SHORT,
      pp_notional = 500000, pp_im_pct = 1 / 10, pp_im_amount = 50000, pp_entry_p = 41 / 100,
      pp_current_p = 41 / 100, pp_pnl = 0, pp_equity = 50000, pp_status = OPEN\<rparr>"

definition ex_py_liquidated :: py_position where
  "ex_py_liquidated =
     \<lparr>pp_id = ''pos-3'', pp_user_id = ''u-1'', pp_market_id = ''poly-2'', pp_side = LONG,
      pp_notional = 1000000, pp_im_pct = 1 / 10, pp_im_amount = 100000, pp_entry_p = 1 / 2,
      pp_current_p = 4 / 10, pp_pnl = - 100000, pp_equity = 0, pp_status = LIQUIDATED\<rparr>"

definition ex_raw :: "string \<Rightarrow> field \<Rightarrow> field \<Rightarrow> raw_market" where
  "ex_raw n outs prices =
     \<lparr>r_id = n, r_active = True, r_closed = False, r_outcomes = outs,
      r_outcomePrices = prices, r_question = None, r_description = None, r_slug = None\<rparr>"

definition yes_no :: field where
  "yes_no = Text (Some (JArr [JStr ''Yes'', JStr ''No'']))"

text \<open>
  The filter of the ingestion, in the words of the interface: a candidate is kept
  when it is active, not closed and has exactly two outcomes, that is, its outcomes
  field reads as a list of two.
\<close>

definition two_outcomes :: "field \<Rightarrow> bool" where
  "two_outcomes f = (case parse_or_empty f of Some (JArr [a, b]) \<Rightarrow> True | _ \<Rightarrow> False)"

definition kept :: "raw_market \<Rightarrow> bool" where
  "kept m \<longleftrightarrow> r_active m \<and> \<not> r_closed m \<and> two_outcomes (r_outcomes m)"

text \<open>
  \<^verbatim>\<open>Number\<close> and \<^verbatim>\<open>float\<close> on the JSON values of the examples: numbers, booleans and
  strings of plain decimal text (digits with at most one point), which is how the
  provider sends prices. On such text both conversions give the number written.
  On other values the conversions give NaN, raise, or follow the rest of the
  numeric grammar; the 0 and the \<^verbatim>\<open>ValueError\<close> below stand there as placeholders
  that no example reaches.
\<close>

definition digit_value :: "char \<Rightarrow> nat option" where
  "digit_value c =
     (let n = (of_char c :: nat) in if 48 \<le> n \<and> n \<le> 57 then Some (n - 48) else None)"

fun digits_acc :: "nat \<Rightarrow> string \<Rightarrow> nat option" where
  "digits_acc a [] = Some a"
| "digits_acc a (c # cs) =
     (case digit_value c of None \<Rightarrow> None | Some d \<Rightarrow> digits_acc (10 * a + d) cs)"

definition decimal :: "string \<Rightarrow> real option" where
  "decimal cs =
     (let ip = takeWhile (\<lambda>c. c \<noteq> CHR ''.'') cs;
          fp = drop 1 (dropWhile (\<lambda>c. c \<noteq> CHR ''.'') cs)
      in if ip = [] \<and> fp = [] then None
         else
           (case digits_acc 0 ip of
              None \<Rightarrow> None
            | Some n \<Rightarrow>
                (case digits_acc 0 fp of
                   None \<Rightarrow> None
                 | Some f \<Rightarrow> Some (real n + real f / 10 ^ length fp))))"

definition ex_Number :: "json \<Rightarrow> real" where
  "ex_Number j =
     (case j of
        JNum r \<Rightarrow> r
      | JBool b \<Rightarrow> (if b then 1 else 0)
      | JStr cs \<Rightarrow> (case decimal cs of Some r \<Rightarrow> r | None \<Rightarrow> 0)
      | _ \<Rightarrow> 0)"

definition ex_float :: "json \<Rightarrow> error + real" where
  "ex_float j =
     (case j of
        JNum r \<Rightarrow> Inr r
      | JBool b \<Rightarrow> Inr (if b then 1 else 0)
      | JStr cs \<Rightarrow> (case decimal cs of Some r \<Rightarrow> Inr r | None \<Rightarrow> Inl ValueError)
      | _ \<Rightarrow> Inl TypeError)"

text \<open>A batch of candidates: one good, one inactive, one closed, one with three
  outcomes, one whose outcomes text does not parse, one whose price text does not
  parse.\<close>

definition ex_prices :: field where
  "ex_prices = Text (Some (JArr [JStr ''0.6'', JStr ''0.4'']))"

definition ex_batch :: "raw_market list" where
  "ex_batch =
     [ex_raw ''1'' yes_no ex_prices,
      (ex_raw ''2'' yes_no Absent)\<lparr>r_active := False\<rparr>,
      (ex_raw ''3'' yes_no Absent)\<lparr>r_closed := True\<rparr>,
      ex_raw ''4'' (Text (Some (JArr [JStr ''A'', JStr ''B'', JStr ''C'']))) Absent,
      ex_raw ''5'' (Text None) Absent,
      ex_raw ''6'' yes_no (Text None)]"

text \<open>
  A market that came from a candidate whose provider id is \<^verbatim>\<open>constructor\<close>, selected
  as admin market, in both front ends.
\<close>

definition ex_constructor_app :: app where
  "ex_constructor_app =
     ex_app\<lparr>markets := [ex_market ''constructor'' (1 / 2)],
            selectedMarketId := Some ''poly-constructor'',
            adminMarketId := Some ''poly-constructor'',
            manualProb := 1 / 2\<rparr>"

definition ex_constructor_session :: session_state where
  "ex_constructor_session =
     \<lparr>ss_markets = [''poly-constructor'' \<mapsto> ex_py_market ''constructor'' (1 / 2)],
      ss_positions = []\<rparr>"

section \<open>Properties\<close>

subsection \<open>Shared facts about the two engines\<close>

lemma pdPnl_sign: "pdPnl n e c sd = n * (c - e) * side_sign sd"
  by (cases sd) (simp_all add: pdPnl_def)

lemma pd_pnl_sign: "pd_pnl n e c sd = n * (c - e) * side_sign sd"
  by (cases sd) (simp_all add: pd_pnl_def)

lemma recomputePosition_open:
  assumes "find (\<lambda>mm. m_id mm = p_marketId pos) ms = Some m" "p_status pos = OPEN"
  shows "recomputePosition ms pos =
     pos\<lparr>p_currentP := m_currentP m,
         p_pnl := pdPnl (p_notional pos) (p_entryP pos) (m_currentP m) (p_side pos),
         p_equity := computeEquity (p_imAmount pos) (pdPnl (p_notional pos) (p_entryP pos) (m_currentP m) (p_side pos)),
         p_status := (if isLiquidation (computeEquity (p_imAmount pos) (pdPnl (p_notional pos) (p_entryP pos) (m_currentP m) (p_side pos))) (p_imAmount pos) then LIQUIDATED else OPEN)\<rparr>"
  using assms by (simp add: recomputePosition_def Let_def)

lemma recomputePosition_not_open:
  "p_status pos \<noteq> OPEN \<Longrightarrow> recomputePosition ms pos = pos"
  by (simp add: recomputePosition_def split: option.splits)

lemma update_position_open:
  assumes "pp_market_id pos = mid" "pp_status pos = OPEN"
  shows "update_position mid cp pos =
     pos\<lparr>pp_pnl := pd_pnl (pp_notional pos) (pp_entry_p pos) cp (pp_side pos),
         pp_equity := compute_equity (pp_im_amount pos) (pd_pnl (pp_notional pos) (pp_entry_p pos) cp (pp_side pos)),
         pp_current_p := cp,
         pp_status := (if is_liquidation (compute_equity (pp_im_amount pos) (pd_pnl (pp_notional pos) (pp_entry_p pos) cp (pp_side pos))) (pp_im_amount pos) then LIQUIDATED else OPEN)\<rparr>"
  using assms by (simp add: update_position_def Let_def)

lemma markets_handleManualProbApply_Nil:
  "markets (handleManualProbApply st) = [] \<longleftrightarrow> markets st = []"
  by (simp add: handleManualProbApply_def Let_def split: option.splits)

lemma positions_handleManualProbApply:
  "positions (handleManualProbApply st) = positions st"
  by (simp add: handleManualProbApply_def Let_def split: option.splits)

lemma adminMarket_markets_nonempty: "adminMarket st = Some am \<Longrightarrow> markets st \<noteq> []"
  by (auto simp: adminMarket_def split: option.splits)

lemma positions_applyAndRecompute:
  "adminMarket st = Some am \<Longrightarrow>
   positions (applyAndRecompute st) =
     map (recomputePosition (markets (handleManualProbApply st))) (positions st)"
  by (simp add: applyAndRecompute_def recomputeEffect_def markets_handleManualProbApply_Nil
      adminMarket_markets_nonempty positions_handleManualProbApply)

lemma recompute_liquidated_only_by_rule:
  "p_status (recomputePosition ms pos) = LIQUIDATED \<Longrightarrow>
   p_status pos = LIQUIDATED \<or>
   (p_status pos = OPEN \<and>
    isLiquidation (p_equity (recomputePosition ms pos)) (p_imAmount (recomputePosition ms pos)))"
  by (auto simp: recomputePosition_def Let_def split: option.splits if_splits)

lemma update_liquidated_only_by_rule:
  "pp_status (update_position mid cp pos) = LIQUIDATED \<Longrightarrow>
   pp_status pos = LIQUIDATED \<or>
   (pp_status pos = OPEN \<and>
    is_liquidation (pp_equity (update_position mid cp pos)) (pp_im_amount (update_position mid cp pos)))"
  by (auto simp: update_position_def Let_def split: if_splits)

lemma price_update_open_js:
  assumes "adminMarket st = Some am" "i < length (positions st)"
    "p_status (positions st ! i) = OPEN"
    "find (\<lambda>mm. m_id mm = p_marketId (positions st ! i)) (markets (handleManualProbApply st)) = Some m"
  shows "p_equity (positions (applyAndRecompute st) ! i) =
           p_imAmount (positions st ! i) +
           p_notional (positions st ! i) * (m_currentP m - p_entryP (positions st ! i))
             * side_sign (p_side (positions st ! i))
       \<and> p_imAmount (positions (applyAndRecompute st) ! i) = p_imAmount (positions st ! i)
       \<and> (p_status (positions (applyAndRecompute st) ! i) = LIQUIDATED \<longleftrightarrow>
           p_equity (positions (applyAndRecompute st) ! i)
             \<le> 5 / 100 * p_imAmount (positions (applyAndRecompute st) ! i))
       \<and> (p_status (positions (applyAndRecompute st) ! i) = OPEN \<longleftrightarrow>
           \<not> p_equity (positions (applyAndRecompute st) ! i)
             \<le> 5 / 100 * p_imAmount (positions (applyAndRecompute st) ! i))"
  using assms
  by (simp add: positions_applyAndRecompute recomputePosition_open pdPnl_sign
      computeEquity_def isLiquidation_def LIQ_THRESHOLD_BETA_def)

lemma manual_prob_button_eq:
  assumes "ss_markets s mid = Some m0"
  shows "manual_prob_button mid new_p s =
     Inr (s\<lparr>ss_markets := (ss_markets s)(mid \<mapsto> m0\<lparr>pm_current_p := new_p\<rparr>),
            ss_positions := map (update_position mid new_p) (ss_positions s)\<rparr>)"
  using assms by (simp add: manual_prob_button_def update_positions_for_market_def)

lemma price_update_open_py:
  assumes "ss_markets s mid = Some m0" "j < length (ss_positions s)"
    "pp_market_id (ss_positions s ! j) = mid" "pp_status (ss_positions s ! j) = OPEN"
  shows "\<exists>s'. manual_prob_button mid new_p s = Inr s'
       \<and> pp_equity (ss_positions s' ! j) =
           pp_im_amount (ss_positions s ! j) +
           pp_notional (ss_positions s ! j) * (new_p - pp_entry_p (ss_positions s ! j))
             * side_sign (pp_side (ss_positions s ! j))
       \<and> pp_im_amount (ss_positions s' ! j) = pp_im_amount (ss_positions s ! j)
       \<and> (pp_status (ss_positions s' ! j) = LIQUIDATED \<longleftrightarrow>
           pp_equity (ss_positions s' ! j) \<le> 5 / 100 * pp_im_amount (ss_positions s' ! j))
       \<and> (pp_status (ss_positions s' ! j) = OPEN \<longleftrightarrow>
           \<not> pp_equity (ss_positions s' ! j) \<le> 5 / 100 * pp_im_amount (ss_positions s' ! j))"
  using assms
  by (simp add: manual_prob_button_eq update_position_open pd_pnl_sign
      compute_equity_def is_liquidation_def py_LIQ_THRESHOLD_BETA_def)

lemma ex_adminMarket:
  "adminMarket (ex_app\<lparr>positions := ps\<rparr>) = Some (ex_market ''1'' (1 / 2))"
  by (simp add: adminMarket_def ex_app_def ex_market_def)

lemma ex_find_after_apply:
  "find (\<lambda>mm. m_id mm = ''poly-1'') (markets (handleManualProbApply (ex_app\<lparr>positions := ps\<rparr>)))
     = Some ((ex_market ''1'' (1 / 2))\<lparr>m_currentP := 4 / 10\<rparr>)"
  by (simp add: handleManualProbApply_def ex_adminMarket Let_def)
     (simp add: ex_app_def ex_market_def)

subsection \<open>Pricing identity\<close>

text \<open>
  C1. For every notional, entry and current probability and side, \<^verbatim>\<open>pdPnl\<close> (and
  \<^verbatim>\<open>pd_pnl\<close>) returns \<open>notional * (currentP - entryP) * sign(side)\<close> with
  \<open>sign(LONG) = 1\<close> and \<open>sign(SHORT) = -1\<close>, and \<^verbatim>\<open>computeEquity\<close> (and
  \<^verbatim>\<open>compute_equity\<close>) returns margin plus that pnl. Both are total functions with no
  error result; no range of the arguments is needed.
\<close>

theorem C1_pricing_identity:
  "pdPnl notional entryP currentP sd = notional * (currentP - entryP) * side_sign sd
   \<and> computeEquity marginAmount (pdPnl notional entryP currentP sd)
       = marginAmount + notional * (currentP - entryP) * side_sign sd
   \<and> pd_pnl notional entryP currentP sd = notional * (currentP - entryP) * side_sign sd
   \<and> compute_equity marginAmount (pd_pnl notional entryP currentP sd)
       = marginAmount + notional * (currentP - entryP) * side_sign sd
   \<and> side_sign LONG = 1 \<and> side_sign SHORT = - 1"
  by (simp add: pdPnl_sign pd_pnl_sign computeEquity_def compute_equity_def)

subsection \<open>Liquidation threshold\<close>

text \<open>
  C2. A position that is OPEN when a price update is applied (in the React app: its
  market is found; in the Streamlit script: it is on the updated market) gets
  equity = margin + notional * (p - entryP) * sign(side), and comes out LIQUIDATED
  exactly when that equity is at most 0.05 times its margin, and OPEN otherwise.
  The recompute pass makes no position LIQUIDATED in any other way. The threshold
  is the one constant \<^verbatim>\<open>LIQ_THRESHOLD_BETA\<close> = 0.05 of each file.
\<close>

theorem C2_liquidation_threshold:
  "LIQ_THRESHOLD_BETA = 5 / 100 \<and> py_LIQ_THRESHOLD_BETA = 5 / 100
   \<and> (adminMarket st = Some am \<and> i < length (positions st)
        \<and> p_status (positions st ! i) = OPEN
        \<and> find (\<lambda>mm. m_id mm = p_marketId (positions st ! i))
             (markets (handleManualProbApply st)) = Some m
      \<longrightarrow> p_equity (positions (applyAndRecompute st) ! i) =
            p_imAmount (positions st ! i) +
            p_notional (positions st ! i) * (m_currentP m - p_entryP (positions st ! i))
              * side_sign (p_side (positions st ! i))
        \<and> p_imAmount (positions (applyAndRecompute st) ! i) = p_imAmount (positions st ! i)
        \<and> (p_status (positions (applyAndRecompute st) ! i) = LIQUIDATED \<longleftrightarrow>
            p_equity (positions (applyAndRecompute st) ! i)
              \<le> 5 / 100 * p_imAmount (positions (applyAndRecompute st) ! i))
        \<and> (p_status (positions (applyAndRecompute st) ! i) = OPEN \<longleftrightarrow>
            \<not> p_equity (positions (applyAndRecompute st) ! i)
              \<le> 5 / 100 * p_imAmount (positions (applyAndRecompute st) ! i)))
   \<and> (ss_markets s mid = Some m0 \<and> j < length (ss_positions s)
        \<and> pp_market_id (ss_positions s ! j) = mid \<and> pp_status (ss_positions s ! j) = OPEN
      \<longrightarrow> (\<exists>s'. manual_prob_button mid new_p s = Inr s'
        \<and> pp_equity (ss_positions s' ! j) =
            pp_im_amount (ss_positions s ! j) +
            pp_notional (ss_positions s ! j) * (new_p - pp_entry_p (ss_positions s ! j))
              * side_sign (pp_side (ss_positions s ! j))
        \<and> pp_im_amount (ss_positions s' ! j) = pp_im_amount (ss_positions s ! j)
        \<and> (pp_status (ss_positions s' ! j) = LIQUIDATED \<longleftrightarrow>
            pp_equity (ss_positions s' ! j) \<le> 5 / 100 * pp_im_amount (ss_positions s' ! j))
        \<and> (pp_status (ss_positions s' ! j) = OPEN \<longleftrightarrow>
            \<not> pp_equity (ss_positions s' ! j) \<le> 5 / 100 * pp_im_amount (ss_positions s' ! j))))
   \<and> (p_status (recomputePosition ms pos) = LIQUIDATED \<longrightarrow>
        p_status pos = LIQUIDATED \<or>
        (p_status pos = OPEN \<and>
         p_equity (recomputePosition ms pos) \<le> 5 / 100 * p_imAmount (recomputePosition ms pos)))
   \<and> (pp_status (update_position mid' cp ppos) = LIQUIDATED \<longrightarrow>
        pp_status ppos = LIQUIDATED \<or>
        (pp_status ppos = OPEN \<and>
         pp_equity (update_position mid' cp ppos)
           \<le> 5 / 100 * pp_im_amount (update_position mid' cp ppos)))"
proof -
  have beta: "LIQ_THRESHOLD_BETA = 5 / 100" "py_LIQ_THRESHOLD_BETA = 5 / 100"
    by (simp_all add: LIQ_THRESHOLD_BETA_def py_LIQ_THRESHOLD_BETA_def)
  have only_js: "p_status (recomputePosition ms pos) = LIQUIDATED \<longrightarrow>
        p_status pos = LIQUIDATED \<or>
        (p_status pos = OPEN \<and>
         p_equity (recomputePosition ms pos) \<le> 5 / 100 * p_imAmount (recomputePosition ms pos))"
    using recompute_liquidated_only_by_rule [of ms pos]
    by (auto simp: isLiquidation_def LIQ_THRESHOLD_BETA_def)
  have only_py: "pp_status (update_position mid' cp ppos) = LIQUIDATED \<longrightarrow>
        pp_status ppos = LIQUIDATED \<or>
        (pp_status ppos = OPEN \<and>
         pp_equity (update_position mid' cp ppos)
           \<le> 5 / 100 * pp_im_amount (update_position mid' cp ppos))"
    using update_liquidated_only_by_rule [of mid' cp ppos]
    by (auto simp: is_liquidation_def py_LIQ_THRESHOLD_BETA_def)
  show ?thesis
    using beta only_js only_py price_update_open_js [of st am i m] price_update_open_py [of s mid m0 j new_p]
    by blast
qed

theorem C2_liquidation_threshold_witness:
  "adminMarket (ex_app\<lparr>positions := [ex_position]\<rparr>) = Some (ex_market ''1'' (1 / 2))
   \<and> p_status ex_position = OPEN
   \<and> p_equity (positions (applyAndRecompute (ex_app\<lparr>positions := [ex_position]\<rparr>)) ! 0) = 0
   \<and> p_status (positions (applyAndRecompute (ex_app\<lparr>positions := [ex_position]\<rparr>)) ! 0) = LIQUIDATED
   \<and> pp_status ex_py_position = OPEN
   \<and> (\<exists>s'. manual_prob_button ''poly-1'' (4 / 10) (ex_session\<lparr>ss_positions := [ex_py_position]\<rparr>) = Inr s'
        \<and> pp_equity (ss_positions s' ! 0) = 0
        \<and> pp_status (ss_positions s' ! 0) = LIQUIDATED)
   \<and> p_status (recomputePosition [ex_market ''1'' (2 / 5)] ex_position) = LIQUIDATED
   \<and> p_equity (recomputePosition [ex_market ''1'' (2 / 5)] ex_position)
        \<le> 5 / 100 * p_imAmount (recomputePosition [ex_market ''1'' (2 / 5)] ex_position)
   \<and> pp_status (update_position ''poly-1'' (2 / 5) ex_py_position) = LIQUIDATED
   \<and> pp_equity (update_position ''poly-1'' (2 / 5) ex_py_position)
        \<le> 5 / 100 * pp_im_amount (update_position ''poly-1'' (2 / 5) ex_py_position)"
proof -
  let ?st = "ex_app\<lparr>positions := [ex_position]\<rparr>"
  let ?s = "ex_session\<lparr>ss_positions := [ex_py_position]\<rparr>"
  let ?m = "(ex_market ''1'' (1 / 2))\<lparr>m_currentP := 4 / 10\<rparr>"
  have a: "adminMarket ?st = Some (ex_market ''1'' (1 / 2))"
    by (rule ex_adminMarket)
  have js_hyp: "adminMarket ?st = Some (ex_market ''1'' (1 / 2)) \<and> 0 < length (positions ?st)
      \<and> p_status (positions ?st ! 0) = OPEN
      \<and> find (\<lambda>mm. m_id mm = p_marketId (positions ?st ! 0)) (markets (handleManualProbApply ?st))
            = Some ?m"
    using a ex_find_after_apply [of "[ex_position]"] by (simp add: ex_position_def)
  have py_hyp: "ss_markets ?s ''poly-1'' = Some (ex_py_market ''1'' (1 / 2))
      \<and> 0 < length (ss_positions ?s) \<and> pp_market_id (ss_positions ?s ! 0) = ''poly-1''
      \<and> pp_status (ss_positions ?s ! 0) = OPEN"
    by (simp add: ex_session_def ex_py_position_def)
  note inst = C2_liquidation_threshold [where st = ?st and am = "ex_market ''1'' (1 / 2)"
      and i = 0 and m = ?m and s = ?s and mid = "''poly-1''"
      and ?m0.0 = "ex_py_market ''1'' (1 / 2)" and j = 0 and new_p = "4 / 10"]
  note js = inst [THEN conjunct2, THEN conjunct2, THEN conjunct1, THEN mp, OF js_hyp]
  note py = inst [THEN conjunct2, THEN conjunct2, THEN conjunct2, THEN conjunct1, THEN mp,
      OF py_hyp]
  have js': "p_equity (positions (applyAndRecompute ?st) ! 0) = 0
      \<and> p_status (positions (applyAndRecompute ?st) ! 0) = LIQUIDATED"
    using js by (simp add: ex_position_def)
  have py': "\<exists>s'. manual_prob_button ''poly-1'' (4 / 10) ?s = Inr s'
        \<and> pp_equity (ss_positions s' ! 0) = 0
        \<and> pp_status (ss_positions s' ! 0) = LIQUIDATED"
    using py by (auto simp: ex_py_position_def)
  have l1: "p_status (recomputePosition [ex_market ''1'' (2 / 5)] ex_position) = LIQUIDATED"
    by (simp add: recomputePosition_def ex_market_def ex_position_def pdPnl_def
        computeEquity_def isLiquidation_def LIQ_THRESHOLD_BETA_def Let_def)
  have l2: "pp_status (update_position ''poly-1'' (2 / 5) ex_py_position) = LIQUIDATED"
    by (simp add: update_position_def ex_py_position_def pd_pnl_def compute_equity_def
        is_liquidation_def py_LIQ_THRESHOLD_BETA_def Let_def)
  note only_js = inst [where ms = "[ex_market ''1'' (2 / 5)]" and pos = ex_position,
      THEN conjunct2, THEN conjunct2, THEN conjunct2, THEN conjunct2, THEN conjunct1,
      THEN mp, OF l1]
  note only_py = inst [where mid' = "''poly-1''" and cp = "2 / 5" and ppos = ex_py_position,
      THEN conjunct2, THEN conjunct2, THEN conjunct2, THEN conjunct2, THEN conjunct2,
      THEN mp, OF l2]
  have open_before: "p_status ex_position = OPEN" "pp_status ex_py_position = OPEN"
    by (simp_all add: ex_position_def ex_py_position_def)
  have r1: "p_equity (recomputePosition [ex_market ''1'' (2 / 5)] ex_position)
        \<le> 5 / 100 * p_imAmount (recomputePosition [ex_market ''1'' (2 / 5)] ex_position)"
    using only_js open_before by simp
  have r2: "pp_equity (update_position ''poly-1'' (2 / 5) ex_py_position)
        \<le> 5 / 100 * pp_im_amount (update_position ''poly-1'' (2 / 5) ex_py_position)"
    using only_py open_before by simp
  show ?thesis using a js' py' l1 l2 r1 r2 open_before by simp
qed

subsection \<open>Facts about settlement\<close>

lemma settlePosition_settled:
  "p_status pos = SETTLED \<Longrightarrow> settlePosition a out pos = pos"
  by (simp add: settlePosition_def)

lemma settlePosition_other:
  "p_marketId pos \<noteq> a \<Longrightarrow> settlePosition a out pos = pos"
  by (simp add: settlePosition_def)

lemma settlePosition_liquidated:
  "p_marketId pos = a \<Longrightarrow> p_status pos = LIQUIDATED \<Longrightarrow>
   settlePosition a out pos = pos\<lparr>p_status := SETTLED\<rparr>"
  by (simp add: settlePosition_def)

lemma settlePosition_open:
  "p_marketId pos = a \<Longrightarrow> p_status pos = OPEN \<Longrightarrow>
   settlePosition a out pos =
     pos\<lparr>p_currentP := out,
         p_pnl := pdPnl (p_notional pos) (p_entryP pos) out (p_side pos),
         p_equity := computeEquity (p_imAmount pos)
                       (pdPnl (p_notional pos) (p_entryP pos) out (p_side pos)),
         p_status := SETTLED\<rparr>"
  by (simp add: settlePosition_def Let_def)

lemma settlePosition_status:
  "p_marketId pos = a \<Longrightarrow> p_status (settlePosition a out pos) = SETTLED"
  by (cases "p_status pos") (simp_all add: settlePosition_def Let_def)

lemma positions_handleSettle:
  "adminMarket st = Some am \<Longrightarrow>
   positions (handleSettle st) =
     map (settlePosition (m_id am) (if settleOutcome st = 1 then 1 else 0)) (positions st)"
  by (simp add: handleSettle_def Let_def)

lemma markets_handleSettle:
  "adminMarket st = Some am \<Longrightarrow>
   markets (handleSettle st) =
     map (\<lambda>m. if m_id m = m_id am
               then m\<lparr>m_status := SETTLED,
                      m_outcome := Some (if settleOutcome st = 1 then 1 else 0)\<rparr>
               else m) (markets st)"
  by (simp add: handleSettle_def Let_def)

lemma positions_recomputeEffect_nth:
  "i < length (positions st) \<Longrightarrow> p_status (positions st ! i) \<noteq> OPEN \<Longrightarrow>
   positions (recomputeEffect st) ! i = positions st ! i"
  by (simp add: recomputeEffect_def recomputePosition_not_open)

lemma length_positions_recomputeEffect:
  "length (positions (recomputeEffect st)) = length (positions st)"
  by (simp add: recomputeEffect_def)

lemma length_positions_handleSettle:
  "length (positions (handleSettle st)) = length (positions st)"
  by (simp add: handleSettle_def Let_def split: option.splits)

lemma settle_position_settled:
  "pp_status pos = SETTLED \<Longrightarrow> settle_position a out pos = pos"
  by (simp add: settle_position_def)

lemma settle_position_other:
  "pp_market_id pos \<noteq> a \<Longrightarrow> settle_position a out pos = pos"
  by (simp add: settle_position_def)

lemma settle_position_liquidated:
  "pp_market_id pos = a \<Longrightarrow> pp_status pos = LIQUIDATED \<Longrightarrow>
   settle_position a out pos = pos\<lparr>pp_status := SETTLED\<rparr>"
  by (simp add: settle_position_def)

lemma settle_position_open:
  "pp_market_id pos = a \<Longrightarrow> pp_status pos = OPEN \<Longrightarrow>
   settle_position a out pos =
     pos\<lparr>pp_pnl := pd_pnl (pp_notional pos) (pp_entry_p pos) out (pp_side pos),
         pp_equity := compute_equity (pp_im_amount pos)
                       (pd_pnl (pp_notional pos) (pp_entry_p pos) out (pp_side pos)),
         pp_current_p := out,
         pp_status := SETTLED\<rparr>"
  by (simp add: settle_position_def Let_def)

lemma settle_position_status:
  "pp_market_id pos = a \<Longrightarrow> pp_status (settle_position a out pos) = SETTLED"
  by (cases "pp_status pos") (simp_all add: settle_position_def Let_def)

lemma settle_market_eq:
  "ss_markets s mid = Some m \<Longrightarrow>
   settle_market mid out s =
     Inr (s\<lparr>ss_markets := (ss_markets s)(mid \<mapsto> m\<lparr>pm_status := SETTLED, pm_outcome := Some out\<rparr>),
            ss_positions := map (settle_position mid out) (ss_positions s)\<rparr>)"
  by (simp add: settle_market_def)

lemma settlement_js:
  assumes "adminMarket st = Some am" "i < length (positions st)"
    "p_marketId (positions st ! i) = m_id am"
  shows "p_status (positions (handleSettle st) ! i) = SETTLED
     \<and> (p_status (positions st ! i) = LIQUIDATED \<longrightarrow>
          positions (handleSettle st) ! i = (positions st ! i)\<lparr>p_status := SETTLED\<rparr>)
     \<and> (p_status (positions st ! i) = OPEN \<longrightarrow>
          positions (handleSettle st) ! i =
            (positions st ! i)
              \<lparr>p_currentP := (if settleOutcome st = 1 then 1 else 0),
               p_pnl := pdPnl (p_notional (positions st ! i)) (p_entryP (positions st ! i))
                          (if settleOutcome st = 1 then 1 else 0) (p_side (positions st ! i)),
               p_equity := p_imAmount (positions st ! i) +
                           pdPnl (p_notional (positions st ! i)) (p_entryP (positions st ! i))
                             (if settleOutcome st = 1 then 1 else 0) (p_side (positions st ! i)),
               p_status := SETTLED\<rparr>)
     \<and> positions (settleAndRecompute st) ! i = positions (handleSettle st) ! i"
proof -
  have st: "p_status (positions (handleSettle st) ! i) = SETTLED"
    using assms by (simp add: positions_handleSettle settlePosition_status)
  have "positions (recomputeEffect (handleSettle st)) ! i = positions (handleSettle st) ! i"
    using st assms(2) by (simp add: positions_recomputeEffect_nth length_positions_handleSettle)
  then have eff: "positions (settleAndRecompute st) ! i = positions (handleSettle st) ! i"
    using assms(1) by (simp add: settleAndRecompute_def)
  show ?thesis
    using assms st eff
    by (simp add: positions_handleSettle settlePosition_liquidated settlePosition_open
        computeEquity_def)
qed

lemma settlement_py:
  assumes "ss_markets s mid = Some m" "j < length (ss_positions s)"
    "pp_market_id (ss_positions s ! j) = mid"
  shows "\<exists>s'. settle_market mid out s = Inr s'
     \<and> pp_status (ss_positions s' ! j) = SETTLED
     \<and> (pp_status (ss_positions s ! j) = LIQUIDATED \<longrightarrow>
          ss_positions s' ! j = (ss_positions s ! j)\<lparr>pp_status := SETTLED\<rparr>)
     \<and> (pp_status (ss_positions s ! j) = OPEN \<longrightarrow>
          ss_positions s' ! j =
            (ss_positions s ! j)
              \<lparr>pp_pnl := pd_pnl (pp_notional (ss_positions s ! j)) (pp_entry_p (ss_positions s ! j))
                          out (pp_side (ss_positions s ! j)),
               pp_equity := pp_im_amount (ss_positions s ! j) +
                           pd_pnl (pp_notional (ss_positions s ! j)) (pp_entry_p (ss_positions s ! j))
                             out (pp_side (ss_positions s ! j)),
               pp_current_p := out,
               pp_status := SETTLED\<rparr>)"
  using assms
  by (simp add: settle_market_eq settle_position_status settle_position_liquidated
      settle_position_open compute_equity_def)

lemma ex_adminMarket2:
  "adminMarket (ex_app\<lparr>positions := ps, adminMarketId := Some ''poly-2''\<rparr>)
     = Some (ex_market ''2'' (41 / 100))"
  by (simp add: adminMarket_def ex_app_def ex_market_def)

lemma find_Some_id: "find (\<lambda>m. m_id m = k) ms = Some am \<Longrightarrow> m_id am = k"
  by (auto simp: find_Some_iff)

lemma adminMarket_id:
  "adminMarket st = Some am \<Longrightarrow> adminMarketId st = Some (m_id am)"
  by (auto simp: adminMarket_def find_Some_iff split: option.splits)

lemma find_map_same_id:
  assumes "\<And>m. m_id (f m) = m_id m"
  shows "find (\<lambda>m. m_id m = k) (map f ms) = map_option f (find (\<lambda>m. m_id m = k) ms)"
  by (induction ms) (simp_all add: assms)

lemma adminMarket_handleSettle:
  assumes "adminMarket st = Some am"
  shows "adminMarket ((handleSettle st)\<lparr>settleOutcome := o2\<rparr>) =
     Some (am\<lparr>m_status := SETTLED,
              m_outcome := Some (if settleOutcome st = 1 then 1 else 0)\<rparr>)"
proof -
  have id: "adminMarketId st = Some (m_id am)"
    using assms by (rule adminMarket_id)
  have f: "find (\<lambda>m. m_id m = m_id am) (markets st) = Some am"
    using assms id by (simp add: adminMarket_def)
  have "adminMarketId (handleSettle st) = Some (m_id am)"
    using assms id by (simp add: handleSettle_def Let_def)
  then show ?thesis
    using assms f
    by (simp add: adminMarket_def markets_handleSettle find_map_same_id)
qed

lemma resettle_js:
  assumes "adminMarket st = Some am" "i < length (positions st)"
    "p_marketId (positions st ! i) = m_id am"
  shows "positions (handleSettle ((handleSettle st)\<lparr>settleOutcome := o2\<rparr>)) ! i
           = positions (handleSettle st) ! i"
proof -
  let ?st1 = "(handleSettle st)\<lparr>settleOutcome := o2\<rparr>"
  let ?am1 = "am\<lparr>m_status := SETTLED, m_outcome := Some (if settleOutcome st = 1 then 1 else 0)\<rparr>"
  have a: "adminMarket ?st1 = Some ?am1"
    using assms(1) by (rule adminMarket_handleSettle)
  have s: "p_status (positions (handleSettle st) ! i) = SETTLED"
    using assms by (simp add: positions_handleSettle settlePosition_status)
  have "positions (handleSettle ?st1) ! i
          = settlePosition (m_id ?am1) (if o2 = 1 then 1 else 0) (positions (handleSettle st) ! i)"
    using assms(2) by (simp add: positions_handleSettle [OF a] length_positions_handleSettle)
  then show ?thesis using s by (simp add: settlePosition_settled)
qed

lemma settled_unchanged_js:
  assumes "i < length (positions st)" "p_status (positions st ! i) = SETTLED"
  shows "positions (handleSettle st) ! i = positions st ! i
       \<and> positions (settleAndRecompute st) ! i = positions st ! i"
proof (cases "adminMarket st")
  case None
  then show ?thesis by (simp add: handleSettle_def settleAndRecompute_def)
next
  case (Some am)
  have a: "positions (handleSettle st) ! i = positions st ! i"
    using assms Some by (simp add: positions_handleSettle settlePosition_settled)
  have "positions (recomputeEffect (handleSettle st)) ! i = positions (handleSettle st) ! i"
    using assms a by (simp add: positions_recomputeEffect_nth length_positions_handleSettle)
  then show ?thesis using a Some by (simp add: settleAndRecompute_def)
qed

lemma settled_unchanged_py:
  assumes "ss_markets s mid = Some m" "j < length (ss_positions s)"
    "pp_status (ss_positions s ! j) = SETTLED"
  shows "\<exists>s'. settle_market mid out s = Inr s' \<and> ss_positions s' ! j = ss_positions s ! j"
  using assms by (simp add: settle_market_eq settle_position_settled)

lemma resettle_py:
  assumes "ss_markets s mid = Some m" "j < length (ss_positions s)"
    "pp_market_id (ss_positions s ! j) = mid"
  shows "\<exists>s' s''. settle_market mid out s = Inr s' \<and> settle_market mid out2 s' = Inr s''
           \<and> ss_positions s'' ! j = ss_positions s' ! j"
  using assms
  by (simp add: settle_market_eq settle_position_status settle_position_settled)

lemma markets_handleSettle_nth:
  assumes "adminMarket st = Some am" "k < length (markets st)"
  shows "markets (handleSettle st) ! k =
     (if m_id (markets st ! k) = m_id am
      then (markets st ! k)\<lparr>m_status := SETTLED,
             m_outcome := Some (if settleOutcome st = 1 then 1 else 0)\<rparr>
      else markets st ! k)"
  using assms by (simp add: markets_handleSettle)

lemma length_markets_handleSettle:
  "length (markets (handleSettle st)) = length (markets st)"
  by (simp add: handleSettle_def Let_def split: option.splits)

lemma outcome_binary_preserved:
  assumes "\<forall>m \<in> set (markets st). m_status m = SETTLED \<longrightarrow> m_outcome m = Some 0 \<or> m_outcome m = Some 1"
  shows "\<forall>m \<in> set (markets (handleSettle st)). m_status m = SETTLED \<longrightarrow>
           m_outcome m = Some 0 \<or> m_outcome m = Some 1"
proof (cases "adminMarket st")
  case None
  then show ?thesis using assms by (simp add: handleSettle_def)
next
  case (Some am)
  show ?thesis
    using assms by (auto simp: markets_handleSettle [OF Some])
qed

lemma status_handleManualProbApply:
  "k < length (markets st) \<Longrightarrow>
   m_status (markets (handleManualProbApply st) ! k) = m_status (markets st ! k)
   \<and> m_outcome (markets (handleManualProbApply st) ! k) = m_outcome (markets st ! k)"
  by (simp add: handleManualProbApply_def Let_def split: option.splits)

lemma status_handleRefreshFromPolymarket:
  "k < length (markets st) \<Longrightarrow>
   m_status (markets (handleRefreshFromPolymarket N res st) ! k) = m_status (markets st ! k)
   \<and> m_outcome (markets (handleRefreshFromPolymarket N res st) ! k) = m_outcome (markets st ! k)"
  by (simp add: handleRefreshFromPolymarket_def Let_def split: option.splits sum.splits)

lemma markets_handleOpenPosition:
  "markets (handleOpenPosition nid st) = markets st"
  by (simp add: handleOpenPosition_def Let_def split: option.splits)

lemma markets_recomputeEffect:
  "markets (recomputeEffect st) = markets st"
  by (simp add: recomputeEffect_def)

lemma status_handleSettle_stays:
  assumes "k < length (markets st)" "m_status (markets st ! k) = SETTLED"
  shows "m_status (markets (handleSettle st) ! k) = SETTLED"
proof (cases "adminMarket st")
  case None
  then show ?thesis using assms by (simp add: handleSettle_def)
next
  case (Some am)
  then show ?thesis using assms by (simp add: markets_handleSettle_nth)
qed

lemma manual_prob_button_status:
  assumes "ss_markets s mid = Some m" "ss_markets s k = Some m'"
  shows "\<exists>s' m''. manual_prob_button mid p s = Inr s' \<and> ss_markets s' k = Some m''
           \<and> pm_status m'' = pm_status m' \<and> pm_outcome m'' = pm_outcome m'"
  using assms by (cases "k = mid") (simp_all add: manual_prob_button_eq)

lemma ex_settled_adminMarket:
  "adminMarket ex_settled_app =
     Some ((ex_market ''1'' (1 / 2))\<lparr>m_status := SETTLED, m_outcome := Some 1\<rparr>)"
  by (simp add: adminMarket_def ex_settled_app_def ex_app_def ex_market_def)

subsection \<open>Settlement finality\<close>

text \<open>
  C4. After a settlement (\<^verbatim>\<open>handleSettle\<close> with an admin market selected,
  \<^verbatim>\<open>settle_market\<close> on a known market) every position on that market is SETTLED.
  One that was LIQUIDATED changes in its status only, so it keeps its pnl and its
  equity. One that was OPEN gets pnl = pdPnl with the outcome in the place of the
  current probability, equity = margin + that pnl, and the outcome as its current
  probability. The status is SETTLED whatever the final equity is: no liquidation
  test takes part, and the effect that follows in the React app leaves the
  position as settled.
\<close>

theorem C4_settlement_finality:
  "(adminMarket st = Some am \<and> i < length (positions st)
      \<and> p_marketId (positions st ! i) = m_id am
    \<longrightarrow> p_status (positions (handleSettle st) ! i) = SETTLED
      \<and> (p_status (positions st ! i) = LIQUIDATED \<longrightarrow>
           positions (handleSettle st) ! i = (positions st ! i)\<lparr>p_status := SETTLED\<rparr>)
      \<and> (p_status (positions st ! i) = OPEN \<longrightarrow>
           positions (handleSettle st) ! i =
             (positions st ! i)
               \<lparr>p_currentP := (if settleOutcome st = 1 then 1 else 0),
                p_pnl := pdPnl (p_notional (positions st ! i)) (p_entryP (positions st ! i))
                           (if settleOutcome st = 1 then 1 else 0) (p_side (positions st ! i)),
                p_equity := p_imAmount (positions st ! i) +
                            pdPnl (p_notional (positions st ! i)) (p_entryP (positions st ! i))
                              (if settleOutcome st = 1 then 1 else 0) (p_side (positions st ! i)),
                p_status := SETTLED\<rparr>)
      \<and> positions (settleAndRecompute st) ! i = positions (handleSettle st) ! i)
   \<and> (ss_markets s mid = Some m \<and> j < length (ss_positions s)
      \<and> pp_market_id (ss_positions s ! j) = mid
    \<longrightarrow> (\<exists>s'. settle_market mid out s = Inr s'
      \<and> pp_status (ss_positions s' ! j) = SETTLED
      \<and> (pp_status (ss_positions s ! j) = LIQUIDATED \<longrightarrow>
           ss_positions s' ! j = (ss_positions s ! j)\<lparr>pp_status := SETTLED\<rparr>)
      \<and> (pp_status (ss_positions s ! j) = OPEN \<longrightarrow>
           ss_positions s' ! j =
             (ss_positions s ! j)
               \<lparr>pp_pnl := pd_pnl (pp_notional (ss_positions s ! j)) (pp_entry_p (ss_positions s ! j))
                           out (pp_side (ss_positions s ! j)),
                pp_equity := pp_im_amount (ss_positions s ! j) +
                            pd_pnl (pp_notional (ss_positions s ! j)) (pp_entry_p (ss_positions s ! j))
                              out (pp_side (ss_positions s ! j)),
                pp_current_p := out,
                pp_status := SETTLED\<rparr>)))"
  using settlement_js [of st am i] settlement_py [of s mid m j out] by blast

theorem C4_settlement_finality_witness:
  "p_status ex_short = OPEN \<and> p_status ex_liquidated = LIQUIDATED
   \<and> isLiquidation (- 245000) (p_imAmount ex_short)
   \<and> positions (handleSettle (ex_app\<lparr>positions := [ex_short, ex_liquidated],
                                      adminMarketId := Some ''poly-2''\<rparr>))
       = [ex_short\<lparr>p_currentP := 1, p_pnl := - 295000, p_equity := - 245000,
                   p_status := SETTLED\<rparr>,
          ex_liquidated\<lparr>p_status := SETTLED\<rparr>]
   \<and> ss_markets ex_session ''poly-2'' = Some (ex_py_market ''2'' (41 / 100))
   \<and> (\<exists>s'. settle_market ''poly-2'' 1 (ex_session\<lparr>ss_positions := [ex_py_short, ex_py_liquidated]\<rparr>)
              = Inr s'
        \<and> ss_positions s' =
             [ex_py_short\<lparr>pp_pnl := - 295000, pp_equity := - 245000, pp_current_p := 1,
                          pp_status := SETTLED\<rparr>,
              ex_py_liquidated\<lparr>pp_status := SETTLED\<rparr>])"
proof -
  let ?st = "ex_app\<lparr>positions := [ex_short, ex_liquidated], adminMarketId := Some ''poly-2''\<rparr>"
  let ?s = "ex_session\<lparr>ss_positions := [ex_py_short, ex_py_liquidated]\<rparr>"
  let ?am = "ex_market ''2'' (41 / 100)"
  let ?pm = "ex_py_market ''2'' (41 / 100)"
  have h0: "adminMarket ?st = Some ?am \<and> 0 < length (positions ?st)
      \<and> p_marketId (positions ?st ! 0) = m_id ?am"
    using ex_adminMarket2 [of "[ex_short, ex_liquidated]"]
    by (simp add: ex_short_def ex_market_def)
  have h1: "adminMarket ?st = Some ?am \<and> 1 < length (positions ?st)
      \<and> p_marketId (positions ?st ! 1) = m_id ?am"
    using ex_adminMarket2 [of "[ex_short, ex_liquidated]"]
    by (simp add: ex_liquidated_def ex_market_def)
  have g0: "ss_markets ?s ''poly-2'' = Some ?pm \<and> 0 < length (ss_positions ?s)
      \<and> pp_market_id (ss_positions ?s ! 0) = ''poly-2''"
    by (simp add: ex_session_def ex_py_short_def)
  have g1: "ss_markets ?s ''poly-2'' = Some ?pm \<and> 1 < length (ss_positions ?s)
      \<and> pp_market_id (ss_positions ?s ! 1) = ''poly-2''"
    by (simp add: ex_session_def ex_py_liquidated_def)
  note js0 = C4_settlement_finality [where st = ?st and am = ?am and i = 0,
      THEN conjunct1, THEN mp, OF h0]
  note js1 = C4_settlement_finality [where st = ?st and am = ?am and i = 1,
      THEN conjunct1, THEN mp, OF h1]
  note py0 = C4_settlement_finality [where s = ?s and mid = "''poly-2''" and m = ?pm
      and j = 0 and out = 1, THEN conjunct2, THEN mp, OF g0]
  note py1 = C4_settlement_finality [where s = ?s and mid = "''poly-2''" and m = ?pm
      and j = 1 and out = 1, THEN conjunct2, THEN mp, OF g1]
  have len: "length (positions (handleSettle ?st)) = 2"
    by (simp add: length_positions_handleSettle)
  have a0: "positions (handleSettle ?st) ! 0 =
      ex_short\<lparr>p_currentP := 1, p_pnl := - 295000, p_equity := - 245000, p_status := SETTLED\<rparr>"
    using js0 by (simp add: ex_short_def ex_app_def pdPnl_def)
  have a1: "positions (handleSettle ?st) ! 1 = ex_liquidated\<lparr>p_status := SETTLED\<rparr>"
    using js1 by (simp add: ex_liquidated_def)
  have js: "positions (handleSettle ?st) =
      [ex_short\<lparr>p_currentP := 1, p_pnl := - 295000, p_equity := - 245000, p_status := SETTLED\<rparr>,
       ex_liquidated\<lparr>p_status := SETTLED\<rparr>]"
    using len a0 a1 by (simp add: list_eq_iff_nth_eq nth_Cons' less_Suc_eq numeral_2_eq_2)
  from py0 obtain s' where s': "settle_market ''poly-2'' 1 ?s = Inr s'"
    "ss_positions s' ! 0 =
       ex_py_short\<lparr>pp_pnl := - 295000, pp_equity := - 245000, pp_current_p := 1,
                   pp_status := SETTLED\<rparr>"
    by (auto simp: ex_py_short_def pd_pnl_def)
  from py1 s'(1) have b1: "ss_positions s' ! 1 = ex_py_liquidated\<lparr>pp_status := SETTLED\<rparr>"
    by (auto simp: ex_py_liquidated_def)
  have "length (ss_positions s') = 2"
    using s'(1) g0 by (simp add: settle_market_eq) auto
  then have py: "ss_positions s' =
      [ex_py_short\<lparr>pp_pnl := - 295000, pp_equity := - 245000, pp_current_p := 1,
                   pp_status := SETTLED\<rparr>,
       ex_py_liquidated\<lparr>pp_status := SETTLED\<rparr>]"
    using s'(2) b1 by (simp add: list_eq_iff_nth_eq nth_Cons' less_Suc_eq numeral_2_eq_2)
  have misc: "p_status ex_short = OPEN \<and> p_status ex_liquidated = LIQUIDATED
      \<and> isLiquidation (- 245000) (p_imAmount ex_short)
      \<and> ss_markets ex_session ''poly-2'' = Some ?pm"
    by (simp add: ex_short_def ex_liquidated_def isLiquidation_def LIQ_THRESHOLD_BETA_def
        ex_session_def)
  show ?thesis using misc js s'(1) py by simp
qed

subsection \<open>Idempotent re-settlement of a position\<close>

text \<open>
  C7. A position that is already SETTLED is left entirely as it is by a settlement
  (of any market, with any outcome), and by the effect that follows in the React
  app. Hence settling a market a second time, with the same or another outcome,
  leaves every position of that market as the first settlement made it.
\<close>

theorem C7_resettlement_idempotent:
  "(i < length (positions st) \<and> p_status (positions st ! i) = SETTLED
    \<longrightarrow> positions (handleSettle st) ! i = positions st ! i
      \<and> positions (settleAndRecompute st) ! i = positions st ! i)
   \<and> (adminMarket st = Some am \<and> i < length (positions st)
        \<and> p_marketId (positions st ! i) = m_id am
    \<longrightarrow> positions (handleSettle ((handleSettle st)\<lparr>settleOutcome := o2\<rparr>)) ! i
          = positions (handleSettle st) ! i)
   \<and> (ss_markets s mid = Some m \<and> j < length (ss_positions s)
        \<and> pp_status (ss_positions s ! j) = SETTLED
    \<longrightarrow> (\<exists>s'. settle_market mid out s = Inr s' \<and> ss_positions s' ! j = ss_positions s ! j))
   \<and> (ss_markets s mid = Some m \<and> j < length (ss_positions s)
        \<and> pp_market_id (ss_positions s ! j) = mid
    \<longrightarrow> (\<exists>s' s''. settle_market mid out s = Inr s' \<and> settle_market mid out2 s' = Inr s''
           \<and> ss_positions s'' ! j = ss_positions s' ! j))"
  using settled_unchanged_js [of i st] resettle_js [of st am i o2]
    settled_unchanged_py [of s mid m j out] resettle_py [of s mid m j out out2]
  by blast

theorem C7_resettlement_idempotent_witness:
  "p_status (ex_short\<lparr>p_currentP := 1, p_pnl := - 295000, p_equity := - 245000,
                       p_status := SETTLED\<rparr>) = SETTLED
   \<and> positions (handleSettle (ex_app\<lparr>positions :=
          [ex_short\<lparr>p_currentP := 1, p_pnl := - 295000, p_equity := - 245000,
                    p_status := SETTLED\<rparr>],
          adminMarketId := Some ''poly-2'', settleOutcome := 0\<rparr>)) ! 0
       = ex_short\<lparr>p_currentP := 1, p_pnl := - 295000, p_equity := - 245000,
                   p_status := SETTLED\<rparr>
   \<and> positions (handleSettle ((handleSettle (ex_app\<lparr>positions := [ex_short],
          adminMarketId := Some ''poly-2''\<rparr>))\<lparr>settleOutcome := 0\<rparr>)) ! 0
       = ex_short\<lparr>p_currentP := 1, p_pnl := - 295000, p_equity := - 245000,
                   p_status := SETTLED\<rparr>
   \<and> (\<exists>s'. settle_market ''poly-2'' 0
              (ex_session\<lparr>ss_positions := [ex_py_short\<lparr>pp_pnl := - 295000,
                 pp_equity := - 245000, pp_current_p := 1, pp_status := SETTLED\<rparr>]\<rparr>) = Inr s'
          \<and> ss_positions s' ! 0 = ex_py_short\<lparr>pp_pnl := - 295000,
                 pp_equity := - 245000, pp_current_p := 1, pp_status := SETTLED\<rparr>)
   \<and> (\<exists>s' s''. settle_market ''poly-2'' 1 (ex_session\<lparr>ss_positions := [ex_py_short]\<rparr>) = Inr s'
          \<and> settle_market ''poly-2'' 0 s' = Inr s''
          \<and> ss_positions s'' ! 0 = ss_positions s' ! 0)"
proof -
  let ?done = "ex_short\<lparr>p_currentP := 1, p_pnl := - 295000, p_equity := - 245000,
                       p_status := SETTLED\<rparr>"
  let ?st2 = "ex_app\<lparr>positions := [?done], adminMarketId := Some ''poly-2'', settleOutcome := 0\<rparr>"
  let ?st = "ex_app\<lparr>positions := [ex_short], adminMarketId := Some ''poly-2''\<rparr>"
  let ?am = "ex_market ''2'' (41 / 100)"
  let ?pm = "ex_py_market ''2'' (41 / 100)"
  let ?pdone = "ex_py_short\<lparr>pp_pnl := - 295000, pp_equity := - 245000, pp_current_p := 1,
                           pp_status := SETTLED\<rparr>"
  let ?s2 = "ex_session\<lparr>ss_positions := [?pdone]\<rparr>"
  let ?s = "ex_session\<lparr>ss_positions := [ex_py_short]\<rparr>"
  have h1: "0 < length (positions ?st2) \<and> p_status (positions ?st2 ! 0) = SETTLED"
    by simp
  have h2: "adminMarket ?st = Some ?am \<and> 0 < length (positions ?st)
      \<and> p_marketId (positions ?st ! 0) = m_id ?am"
    using ex_adminMarket2 [of "[ex_short]"] by (simp add: ex_short_def ex_market_def)
  have h3: "ss_markets ?s2 ''poly-2'' = Some ?pm \<and> 0 < length (ss_positions ?s2)
      \<and> pp_status (ss_positions ?s2 ! 0) = SETTLED"
    by (simp add: ex_session_def)
  have h4: "ss_markets ?s ''poly-2'' = Some ?pm \<and> 0 < length (ss_positions ?s)
      \<and> pp_market_id (ss_positions ?s ! 0) = ''poly-2''"
    by (simp add: ex_session_def ex_py_short_def)
  note c1 = C7_resettlement_idempotent [where st = ?st2 and i = 0,
      THEN conjunct1, THEN mp, OF h1]
  note c2 = C7_resettlement_idempotent [where st = ?st and am = ?am and i = 0 and ?o2.0 = 0,
      THEN conjunct2, THEN conjunct1, THEN mp, OF h2]
  note c3 = C7_resettlement_idempotent [where s = ?s2 and mid = "''poly-2''" and m = ?pm
      and j = 0 and out = 0, THEN conjunct2, THEN conjunct2, THEN conjunct1, THEN mp, OF h3]
  note c4 = C7_resettlement_idempotent [where s = ?s and mid = "''poly-2''" and m = ?pm
      and j = 0 and out = 1 and ?out2.0 = 0,
      THEN conjunct2, THEN conjunct2, THEN conjunct2, THEN mp, OF h4]
  have first: "positions (handleSettle ?st) ! 0 = ?done"
    by (simp add: handleSettle_def adminMarket_def ex_app_def ex_market_def ex_short_def
        settlePosition_def pdPnl_def computeEquity_def Let_def)
  show ?thesis using c1 c2 c3 c4 first by simp
qed

subsection \<open>The stored outcome is 0 or 1\<close>

text \<open>
  C10. (React app.) Whatever number the cell \<^verbatim>\<open>settleOutcome\<close> holds,
  \<^verbatim>\<open>handleSettle\<close> writes 1 to the market when it is 1 and 0 otherwise, and computes
  the final pnl of the market's open positions with that same 0 or 1. So a market
  that \<^verbatim>\<open>handleSettle\<close> has settled has outcome 0 or 1, and if every settled
  market had such an outcome before the call, every settled market has one after.
\<close>

theorem C10_stored_outcome_binary:
  "(adminMarket st = Some am \<and> k < length (markets st) \<and> m_id (markets st ! k) = m_id am
    \<longrightarrow> m_outcome (markets (handleSettle st) ! k)
          = Some (if settleOutcome st = 1 then 1 else 0)
      \<and> (m_outcome (markets (handleSettle st) ! k) = Some 0
          \<or> m_outcome (markets (handleSettle st) ! k) = Some 1)
      \<and> m_status (markets (handleSettle st) ! k) = SETTLED)
   \<and> (adminMarket st = Some am \<and> i < length (positions st)
        \<and> p_marketId (positions st ! i) = m_id am \<and> p_status (positions st ! i) = OPEN
    \<longrightarrow> p_pnl (positions (handleSettle st) ! i)
          = pdPnl (p_notional (positions st ! i)) (p_entryP (positions st ! i))
              (if settleOutcome st = 1 then 1 else 0) (p_side (positions st ! i))
      \<and> p_currentP (positions (handleSettle st) ! i) = (if settleOutcome st = 1 then 1 else 0))
   \<and> ((\<forall>m \<in> set (markets st). m_status m = SETTLED \<longrightarrow>
          m_outcome m = Some 0 \<or> m_outcome m = Some 1)
    \<longrightarrow> (\<forall>m \<in> set (markets (handleSettle st)). m_status m = SETTLED \<longrightarrow>
          m_outcome m = Some 0 \<or> m_outcome m = Some 1))"
proof -
  have a: "adminMarket st = Some am \<and> k < length (markets st) \<and> m_id (markets st ! k) = m_id am
    \<longrightarrow> m_outcome (markets (handleSettle st) ! k)
          = Some (if settleOutcome st = 1 then 1 else 0)
      \<and> (m_outcome (markets (handleSettle st) ! k) = Some 0
          \<or> m_outcome (markets (handleSettle st) ! k) = Some 1)
      \<and> m_status (markets (handleSettle st) ! k) = SETTLED"
    by (simp add: markets_handleSettle_nth)
  have b: "adminMarket st = Some am \<and> i < length (positions st)
        \<and> p_marketId (positions st ! i) = m_id am \<and> p_status (positions st ! i) = OPEN
    \<longrightarrow> p_pnl (positions (handleSettle st) ! i)
          = pdPnl (p_notional (positions st ! i)) (p_entryP (positions st ! i))
              (if settleOutcome st = 1 then 1 else 0) (p_side (positions st ! i))
      \<and> p_currentP (positions (handleSettle st) ! i) = (if settleOutcome st = 1 then 1 else 0)"
    by (simp add: positions_handleSettle settlePosition_open)
  show ?thesis using a b outcome_binary_preserved [of st] by blast
qed

theorem C10_stored_outcome_binary_witness:
  "adminMarket (ex_app\<lparr>positions := [ex_short], adminMarketId := Some ''poly-2'',
                       settleOutcome := 1 / 2\<rparr>) = Some (ex_market ''2'' (41 / 100))
   \<and> m_outcome (markets (handleSettle (ex_app\<lparr>positions := [ex_short],
          adminMarketId := Some ''poly-2'', settleOutcome := 1 / 2\<rparr>)) ! 1) = Some 0
   \<and> p_pnl (positions (handleSettle (ex_app\<lparr>positions := [ex_short],
          adminMarketId := Some ''poly-2'', settleOutcome := 1 / 2\<rparr>)) ! 0) = 205000
   \<and> m_status (markets (handleSettle (ex_app\<lparr>positions := [ex_short],
          adminMarketId := Some ''poly-2'', settleOutcome := 1 / 2\<rparr>)) ! 1) = SETTLED
   \<and> (m_outcome (markets (handleSettle (ex_app\<lparr>positions := [ex_short],
          adminMarketId := Some ''poly-2'', settleOutcome := 1 / 2\<rparr>)) ! 1) = Some 0
        \<or> m_outcome (markets (handleSettle (ex_app\<lparr>positions := [ex_short],
          adminMarketId := Some ''poly-2'', settleOutcome := 1 / 2\<rparr>)) ! 1) = Some 1)"
proof -
  let ?st = "ex_app\<lparr>positions := [ex_short], adminMarketId := Some ''poly-2'',
                    settleOutcome := 1 / 2\<rparr>"
  let ?am = "ex_market ''2'' (41 / 100)"
  have adm: "adminMarket ?st = Some ?am"
    by (simp add: adminMarket_def ex_app_def ex_market_def)
  have h1: "adminMarket ?st = Some ?am \<and> 1 < length (markets ?st)
      \<and> m_id (markets ?st ! 1) = m_id ?am"
    using adm by (simp add: ex_app_def)
  have h2: "adminMarket ?st = Some ?am \<and> 0 < length (positions ?st)
      \<and> p_marketId (positions ?st ! 0) = m_id ?am \<and> p_status (positions ?st ! 0) = OPEN"
    using adm by (simp add: ex_short_def ex_market_def)
  have h3: "\<forall>m \<in> set (markets ?st). m_status m = SETTLED \<longrightarrow>
          m_outcome m = Some 0 \<or> m_outcome m = Some 1"
    by (simp add: ex_app_def ex_market_def)
  note c1 = C10_stored_outcome_binary [where st = ?st and am = ?am and k = 1,
      THEN conjunct1, THEN mp, OF h1]
  note c2 = C10_stored_outcome_binary [where st = ?st and am = ?am and i = 0,
      THEN conjunct2, THEN conjunct1, THEN mp, OF h2]
  note c3 = C10_stored_outcome_binary [where st = ?st,
      THEN conjunct2, THEN conjunct2, THEN mp, OF h3]
  have p: "p_pnl (positions (handleSettle ?st) ! 0) = 205000"
    using c2 by (simp add: ex_short_def pdPnl_def)
  have o: "m_outcome (markets (handleSettle ?st) ! 1) = Some 0"
    using c1 by simp
  have s: "m_status (markets (handleSettle ?st) ! 1) = SETTLED"
    using c1 by simp
  have "markets (handleSettle ?st) ! 1 \<in> set (markets (handleSettle ?st))"
    by (rule nth_mem) (simp add: length_markets_handleSettle ex_app_def)
  with c3 s have "m_outcome (markets (handleSettle ?st) ! 1) = Some 0
        \<or> m_outcome (markets (handleSettle ?st) ! 1) = Some 1"
    by blast
  then show ?thesis using adm p o s by simp
qed

subsection \<open>Facts about sequences of price updates\<close>

lemma length_positions_applyAndRecompute:
  "length (positions (applyAndRecompute st)) = length (positions st)"
  by (simp add: applyAndRecompute_def length_positions_recomputeEffect
      positions_handleManualProbApply split: option.splits)

lemma applyAndRecompute_not_open:
  assumes "i < length (positions st)" "p_status (positions st ! i) \<noteq> OPEN"
  shows "positions (applyAndRecompute st) ! i = positions st ! i"
proof (cases "adminMarket st")
  case None
  then show ?thesis by (simp add: applyAndRecompute_def)
next
  case (Some am)
  then show ?thesis
    using assms by (simp add: positions_applyAndRecompute recomputePosition_not_open)
qed

lemma price_updates_not_open:
  "i < length (positions st) \<Longrightarrow> p_status (positions st ! i) \<noteq> OPEN \<Longrightarrow>
   length (positions (price_updates us st)) = length (positions st)
   \<and> positions (price_updates us st) ! i = positions st ! i"
proof (induction us arbitrary: st)
  case Nil
  then show ?case by simp
next
  case (Cons u us)
  obtain mid p where u: "u = (mid, p)" by (cases u)
  let ?st0 = "st\<lparr>adminMarketId := Some mid, manualProb := p\<rparr>"
  let ?st1 = "applyAndRecompute ?st0"
  have len: "length (positions ?st1) = length (positions st)"
    by (simp add: length_positions_applyAndRecompute)
  have same: "positions ?st1 ! i = positions st ! i"
    using Cons.prems applyAndRecompute_not_open [of i ?st0] by simp
  have "length (positions (price_updates us ?st1)) = length (positions ?st1)
      \<and> positions (price_updates us ?st1) ! i = positions ?st1 ! i"
    using Cons.prems len same by (intro Cons.IH) simp_all
  then show ?case using u len same by simp
qed

lemma recomputePosition_find_cong:
  "find (\<lambda>mm. m_id mm = p_marketId pos) ms = find (\<lambda>mm. m_id mm = p_marketId pos) ms' \<Longrightarrow>
   recomputePosition ms pos = recomputePosition ms' pos"
  by (simp add: recomputePosition_def)

lemma find_map_other_id:
  "k \<noteq> a \<Longrightarrow>
   find (\<lambda>m. m_id m = k) (map (\<lambda>m. if m_id m = a then m\<lparr>m_currentP := p\<rparr> else m) ms)
     = find (\<lambda>m. m_id m = k) ms"
  by (induction ms) simp_all

lemma markets_applyAndRecompute:
  "adminMarket st = Some am \<Longrightarrow>
   markets (applyAndRecompute st) =
     map (\<lambda>m. if m_id m = m_id am then m\<lparr>m_currentP := min 1 (max 0 (manualProb st))\<rparr> else m)
       (markets st)"
  by (simp add: applyAndRecompute_def markets_recomputeEffect handleManualProbApply_def Let_def)

lemma applyAndRecompute_other_market:
  assumes "i < length (positions st)" "adminMarketId st = Some mid"
    "mid \<noteq> p_marketId (positions st ! i)"
    "recomputePosition (markets st) (positions st ! i) = positions st ! i"
  shows "positions (applyAndRecompute st) ! i = positions st ! i
       \<and> recomputePosition (markets (applyAndRecompute st)) (positions st ! i) = positions st ! i"
proof (cases "adminMarket st")
  case None
  then show ?thesis using assms by (simp add: applyAndRecompute_def)
next
  case (Some am)
  have id: "m_id am = mid"
    using adminMarket_id [OF Some] assms(2) by simp
  let ?ms' = "map (\<lambda>m. if m_id m = m_id am
                       then m\<lparr>m_currentP := min 1 (max 0 (manualProb st))\<rparr> else m) (markets st)"
  have f: "find (\<lambda>mm. m_id mm = p_marketId (positions st ! i)) ?ms'
         = find (\<lambda>mm. m_id mm = p_marketId (positions st ! i)) (markets st)"
    using assms(3) id by (intro find_map_other_id) simp
  have r: "recomputePosition ?ms' (positions st ! i) = positions st ! i"
    using recomputePosition_find_cong [OF f] assms(4) by simp
  have m: "markets (handleManualProbApply st) = ?ms'"
    using Some by (simp add: handleManualProbApply_def Let_def)
  show ?thesis
    using assms(1) r m Some
    by (simp add: positions_applyAndRecompute markets_applyAndRecompute)
qed

lemma price_updates_other_market:
  "i < length (positions st) \<Longrightarrow>
   \<forall>u \<in> set us. fst u \<noteq> p_marketId (positions st ! i) \<Longrightarrow>
   recomputePosition (markets st) (positions st ! i) = positions st ! i \<Longrightarrow>
   positions (price_updates us st) ! i = positions st ! i"
proof (induction us arbitrary: st)
  case Nil
  then show ?case by simp
next
  case (Cons u us)
  obtain mid p where u: "u = (mid, p)" by (cases u)
  let ?st0 = "st\<lparr>adminMarketId := Some mid, manualProb := p\<rparr>"
  let ?st1 = "applyAndRecompute ?st0"
  have neq: "mid \<noteq> p_marketId (positions st ! i)"
    using Cons.prems(2) u by simp
  have step: "positions ?st1 ! i = positions st ! i
      \<and> recomputePosition (markets ?st1) (positions st ! i) = positions st ! i"
    using applyAndRecompute_other_market [of i ?st0 mid] Cons.prems neq by simp
  have len: "length (positions ?st1) = length (positions st)"
    by (simp add: length_positions_applyAndRecompute)
  have "positions (price_updates us ?st1) ! i = positions ?st1 ! i"
    using Cons.prems step len by (intro Cons.IH) simp_all
  then show ?case using u step by simp
qed

lemma recomputePosition_idem:
  "recomputePosition ms (recomputePosition ms pos) = recomputePosition ms pos"
  by (simp add: recomputePosition_def Let_def split: option.splits)

lemma selectedMarket_find:
  "selectedMarket st = Some sm \<Longrightarrow> find (\<lambda>mm. m_id mm = m_id sm) (markets st) = Some sm"
  by (auto simp: selectedMarket_def split: option.splits dest: find_Some_id)

lemma fresh_position_consistent:
  assumes "selectedMarket st = Some sm" "0 < st_notional st" "0 < st_imPct st"
  shows "recomputePosition (markets st) (last (positions (handleOpenPosition nid st)))
           = last (positions (handleOpenPosition nid st))"
proof -
  define x where "x = st_notional st * st_imPct st / 100"
  have "0 < x"
    using assms(2,3) by (simp add: x_def)
  then have "\<not> x \<le> 5 / 100 * x"
    by linarith
  then have "\<not> isLiquidation x x"
    by (simp add: isLiquidation_def LIQ_THRESHOLD_BETA_def)
  then have "\<not> isLiquidation (st_notional st * st_imPct st / 100) (st_notional st * st_imPct st / 100)"
    unfolding x_def .
  then show ?thesis
    using assms selectedMarket_find [OF assms(1)]
    by (simp add: handleOpenPosition_def recomputePosition_def Let_def pdPnl_def
        computeEquity_def)
qed

lemma update_position_untouched:
  "pp_status pos \<noteq> OPEN \<or> pp_market_id pos \<noteq> mid \<Longrightarrow> update_position mid cp pos = pos"
  by (auto simp: update_position_def)

lemma fresh_position_moved_iff:
  assumes "selectedMarket st = Some sm" "0 < st_notional st"
  shows "recomputePosition (markets st) (last (positions (handleOpenPosition nid st)))
           \<noteq> last (positions (handleOpenPosition nid st))
         \<longleftrightarrow> st_imPct st \<le> 0"
proof (cases "0 < st_imPct st")
  case True
  then show ?thesis
    using fresh_position_consistent [OF assms(1,2) True, of nid] by simp
next
  case False
  define x where "x = st_notional st * st_imPct st / 100"
  have "st_notional st * st_imPct st \<le> 0"
    using assms(2) False by (simp add: mult_le_0_iff)
  then have "x \<le> 0"
    by (simp add: x_def)
  then have "x \<le> 5 / 100 * x"
    by linarith
  then have "isLiquidation x x"
    by (simp add: isLiquidation_def LIQ_THRESHOLD_BETA_def)
  then have liq: "isLiquidation (st_notional st * st_imPct st / 100)
      (st_notional st * st_imPct st / 100)"
    unfolding x_def .
  have "p_status (recomputePosition (markets st) (last (positions (handleOpenPosition nid st))))
      = LIQUIDATED"
    using assms liq selectedMarket_find [OF assms(1)]
    by (simp add: handleOpenPosition_def recomputePosition_def Let_def pdPnl_def
        computeEquity_def)
  moreover have "p_status (last (positions (handleOpenPosition nid st))) = OPEN"
    using assms by (simp add: handleOpenPosition_def Let_def)
  ultimately show ?thesis using False by auto
qed

lemma ex_selectedMarket: "selectedMarket ex_app = Some (ex_market ''1'' (1 / 2))"
  by (simp add: selectedMarket_def ex_app_def ex_market_def)

subsection \<open>Frozen positions\<close>

text \<open>
  What the React app does: a position whose status is not OPEN is left entirely as
  it is by any number of price updates (\<open>price_updates_not_open\<close>). The recompute
  effect has no market filter: it revisits every OPEN position against its own
  market. A position on another market than the updated ones is left as it is when
  the recompute pass maps it to itself (\<open>price_updates_other_market\<close>), which every
  position that has been through one pass does (\<open>recomputePosition_idem\<close>). A
  position just opened does exactly when the margin percentage of the form is
  positive (\<open>fresh_position_moved_iff\<close>): \<^verbatim>\<open>handleOpenPosition\<close> checks the notional
  and not the margin percentage.
\<close>

text \<open>
  C3. A position on another market is to be left unchanged by a price update. In the
  React app a position opened on market \<^verbatim>\<open>poly-2\<close> with a margin percentage of 0 is
  OPEN with margin 0 and equity 0; a price update to market \<^verbatim>\<open>poly-1\<close> runs the
  effect over it and it becomes LIQUIDATED.
\<close>

theorem C3_zero_margin_position_moved_by_other_update:
  "st_imPct ex_zero_margin_app = 0
   \<and> adminMarketId (handleOpenPosition ''pos-9'' ex_zero_margin_app) = Some ''poly-1''
   \<and> p_marketId (positions (handleOpenPosition ''pos-9'' ex_zero_margin_app) ! 0) = ''poly-2''
   \<and> p_imAmount (positions (handleOpenPosition ''pos-9'' ex_zero_margin_app) ! 0) = 0
   \<and> p_status (positions (handleOpenPosition ''pos-9'' ex_zero_margin_app) ! 0) = OPEN
   \<and> p_status (positions (price_updates [(''poly-1'', 4 / 10)]
                 (handleOpenPosition ''pos-9'' ex_zero_margin_app)) ! 0) = LIQUIDATED"
  by (simp add: handleOpenPosition_def selectedMarket_def ex_zero_margin_app_def ex_app_def
      ex_market_def applyAndRecompute_def adminMarket_def handleManualProbApply_def
      recomputeEffect_def recomputePosition_def pdPnl_def computeEquity_def isLiquidation_def
      LIQ_THRESHOLD_BETA_def Let_def)

subsection \<open>Opening a position\<close>

text \<open>
  What the two handlers do: \<^verbatim>\<open>handleOpenPosition\<close> rejects when no market is selected
  or the notional is not positive, and looks at nothing else;
  the Streamlit handler rejects when the market is not OPEN or the notional is not
  positive. Otherwise each appends exactly one OPEN position with the margin
  computed from the notional, entry and current probability equal to the market's,
  pnl 0 and equity equal to the margin.
\<close>

lemma handleOpenPosition_rejects:
  "selectedMarket st = None \<or> st_notional st \<le> 0 \<Longrightarrow> handleOpenPosition nid st = st"
  by (auto simp: handleOpenPosition_def split: option.splits)

lemma handleOpenPosition_appends:
  "selectedMarket st = Some sm \<Longrightarrow> 0 < st_notional st \<Longrightarrow>
   handleOpenPosition nid st =
     st\<lparr>positions := positions st @
          [\<lparr>p_id = nid, p_marketId = m_id sm, p_marketName = m_question sm,
            p_side = st_side st, p_notional = st_notional st, p_imPct = st_imPct st,
            p_imAmount = st_notional st * st_imPct st / 100, p_entryP = m_currentP sm,
            p_currentP = m_currentP sm, p_pnl = 0,
            p_equity = st_notional st * st_imPct st / 100, p_status = OPEN\<rparr>]\<rparr>"
  by (simp add: handleOpenPosition_def Let_def)

lemma open_position_button_rejects:
  "ss_markets s mid = Some m \<Longrightarrow> pm_status m \<noteq> OPEN \<or> notional \<le> 0 \<Longrightarrow>
   open_position_button nid uid mid sd notional im_pct s = Inr (Error_Shown, s)"
  by (auto simp: open_position_button_def)

lemma open_position_button_appends:
  "ss_markets s mid = Some m \<Longrightarrow> pm_status m = OPEN \<Longrightarrow> 0 < notional \<Longrightarrow>
   open_position_button nid uid mid sd notional im_pct s =
     Inr (Success_Shown,
          s\<lparr>ss_positions := ss_positions s @
             [\<lparr>pp_id = nid, pp_user_id = uid, pp_market_id = mid, pp_side = sd,
               pp_notional = notional, pp_im_pct = im_pct, pp_im_amount = notional * im_pct,
               pp_entry_p = pm_current_p m, pp_current_p = pm_current_p m, pp_pnl = 0,
               pp_equity = notional * im_pct, pp_status = OPEN\<rparr>]\<rparr>)"
  by (simp add: open_position_button_def Let_def)

text \<open>
  C6. The React handler does not test the market's status: on a SETTLED market,
  with notional 1,000,000 and margin 10%, it appends an OPEN position, where the
  Streamlit handler shows its error and leaves the positions as they are.
\<close>

theorem C6_open_on_settled_market:
  "map_option m_status (selectedMarket ex_settled_app) = Some SETTLED
   \<and> st_notional ex_settled_app = 1000000
   \<and> positions ex_settled_app = []
   \<and> positions (handleOpenPosition ''pos-1'' ex_settled_app) = [ex_position]
   \<and> map_option pm_status (ss_markets ex_settled_session ''poly-1'') = Some SETTLED
   \<and> open_position_button ''pos-1'' ''u-1'' ''poly-1'' LONG 1000000 (1 / 10) ex_settled_session
       = Inr (Error_Shown, ex_settled_session)"
proof -
  have sel: "selectedMarket ex_settled_app =
      Some ((ex_market ''1'' (1 / 2))\<lparr>m_status := SETTLED, m_outcome := Some 1\<rparr>)"
    by (simp add: selectedMarket_def ex_settled_app_def ex_app_def ex_market_def)
  have n: "0 < st_notional ex_settled_app"
    by (simp add: ex_settled_app_def ex_app_def)
  have js: "positions (handleOpenPosition ''pos-1'' ex_settled_app) = [ex_position]"
    unfolding handleOpenPosition_appends [OF sel n]
    by (simp add: ex_settled_app_def ex_app_def ex_market_def ex_position_def)
  have m: "ss_markets ex_settled_session ''poly-1'' =
      Some ((ex_py_market ''1'' (1 / 2))\<lparr>pm_status := SETTLED, pm_outcome := Some 1\<rparr>)"
    by (simp add: ex_settled_session_def)
  have py: "open_position_button ''pos-1'' ''u-1'' ''poly-1'' LONG 1000000 (1 / 10)
      ex_settled_session = Inr (Error_Shown, ex_settled_session)"
    by (rule open_position_button_rejects [OF m]) simp
  show ?thesis using sel js m py by (simp add: ex_settled_app_def ex_app_def)
qed

subsection \<open>Facts about the ingestion\<close>

lemma two_outcomes_iff:
  "two_outcomes f \<longleftrightarrow>
     (\<exists>a b. f = Text (Some (JArr [a, b])) \<or> f = Other (Some (JArr [a, b])))"
  by (auto simp: two_outcomes_def parse_or_empty_def
      split: field.splits option.splits json.splits list.splits)

lemma kept_iff_loop_test:
  "kept m \<longleftrightarrow>
     \<not> (\<not> r_active m \<or> r_closed m) \<and>
     (case parse_or_empty (r_outcomes m) of None \<Rightarrow> False | Some outs \<Rightarrow> \<not> not_two_outcomes outs)"
  by (auto simp: kept_def two_outcomes_def not_two_outcomes_def
      split: option.splits json.splits list.splits)

lemma select_markets_eq:
  "length selected < max n 1 \<Longrightarrow>
   select_markets n data selected =
     selected @ take (max n 1 - length selected) (filter kept data)"
proof (induction data arbitrary: selected)
  case Nil
  then show ?case by simp
next
  case (Cons m data)
  show ?case
  proof (cases "kept m")
    case False
    then have "select_markets n (m # data) selected = select_markets n data selected"
      by (auto simp: kept_iff_loop_test split: option.splits)
    then show ?thesis using False Cons by simp
  next
    case True
    then obtain outs where outs: "r_active m" "\<not> r_closed m"
      "parse_or_empty (r_outcomes m) = Some outs" "\<not> not_two_outcomes outs"
      by (auto simp: kept_iff_loop_test split: option.splits)
    show ?thesis
    proof (cases "n \<le> Suc (length selected)")
      case le: True
      then have "select_markets n (m # data) selected = selected @ [m]"
        using outs by (simp add: Let_def)
      moreover have "max n 1 - length selected = 1"
        using le Cons.prems by auto
      ultimately show ?thesis using True by simp
    next
      case gt: False
      then have step: "select_markets n (m # data) selected = select_markets n data (selected @ [m])"
        using outs by (simp add: Let_def)
      have "length (selected @ [m]) < max n 1"
        using gt by simp
      then have "select_markets n data (selected @ [m]) =
          (selected @ [m]) @ take (max n 1 - length (selected @ [m])) (filter kept data)"
        by (rule Cons.IH)
      moreover have "max n 1 - length selected = Suc (max n 1 - length (selected @ [m]))"
        using gt by simp
      ultimately show ?thesis using step True by simp
    qed
  qed
qed

lemma fetchPolymarketMarkets_eq:
  "fetchPolymarketMarkets n (Json_Body data) = Inr (take (max n 1) (filter kept data))"
  by (simp add: fetchPolymarketMarkets_def select_markets_eq)

lemma markets_load:
  "markets (load N (Json_Body data) st) =
     map (polymarketToBube N) (take 15 (filter kept data))"
  by (simp add: load_def fetchPolymarketMarkets_eq Let_def split: list.splits)

lemma pYes_of_unparsable: "pYes_of N (Text None) = 0"
  by (simp add: pYes_of_def parse_or_empty_def)

lemma p_yes_of_unparsable: "p_yes_of F (Text None) = Inr 0"
  by (simp add: p_yes_of_def loads_or_empty_def caught_def)

lemma polymarketToBube_fields:
  "m_id (polymarketToBube N m) = ''poly-'' @ r_id m
   \<and> m_polyId (polymarketToBube N m) = r_id m
   \<and> m_status (polymarketToBube N m) = OPEN
   \<and> m_outcome (polymarketToBube N m) = None
   \<and> m_currentP (polymarketToBube N m) = pYes_of N (r_outcomePrices m)"
  by (simp add: polymarketToBube_def Let_def)

lemma polymarket_market_to_bube_fields:
  "polymarket_market_to_bube F m = Inr bm \<Longrightarrow>
   pm_id bm = ''poly-'' @ r_id m \<and> pm_status bm = OPEN \<and> pm_outcome bm = None
   \<and> p_yes_of F (r_outcomePrices m) = Inr (pm_current_p bm)"
  by (auto simp: polymarket_market_to_bube_def Let_def split: sum.splits)

lemma polymarket_market_to_bube_unparsable:
  "r_outcomePrices m = Text None \<Longrightarrow>
   \<exists>bm. polymarket_market_to_bube F m = Inr bm \<and> pm_current_p bm = 0
        \<and> pm_id bm = ''poly-'' @ r_id m"
  by (simp add: polymarket_market_to_bube_def p_yes_of_unparsable Let_def)

lemma unparsable_outcomes_skipped:
  "r_outcomes m = Text None \<Longrightarrow> m \<notin> set (take k (filter kept data))"
  by (auto simp: kept_def two_outcomes_def parse_or_empty_def dest!: in_set_takeD)

text \<open>
  What the Streamlit script does outside its \<^verbatim>\<open>except\<close> clauses: a field that is
  \<^verbatim>\<open>null\<close>, or whose text is a JSON number where a list is expected, raises
  \<^verbatim>\<open>TypeError\<close>, which ends the whole call. The React functions read the same
  candidates without an error.
\<close>

lemma py_type_errors:
  "fetch_polymarket_markets 200 True True
     (Json_Body [ex_raw ''1'' yes_no Absent, ex_raw ''2'' (Text (Some (JNum 5))) Absent])
     = Inl TypeError
   \<and> fetch_polymarket_markets 200 True True
     (Json_Body [ex_raw ''1'' yes_no Absent, ex_raw ''2'' Null Absent])
     = Inl TypeError
   \<and> polymarket_market_to_bube F (ex_raw ''2'' yes_no (Text (Some (JNum 5)))) = Inl TypeError
   \<and> polymarket_market_to_bube F (ex_raw ''2'' yes_no Null) = Inl TypeError
   \<and> fetchPolymarketMarkets 200
     (Json_Body [ex_raw ''1'' yes_no Absent, ex_raw ''2'' Null Absent])
     = Inr [ex_raw ''1'' yes_no Absent]
   \<and> m_currentP (polymarketToBube N (ex_raw ''2'' yes_no Null)) = 0"
  by (simp add: fetch_polymarket_markets_def fetchPolymarketMarkets_def ex_raw_def yes_no_def
      loads_or_empty_def parse_or_empty_def not_two_outcomes_def py_len_def
      polymarket_market_to_bube_def polymarketToBube_def pYes_of_def p_yes_of_def caught_def
      truthy_def subscript0_def Let_def)

lemma ex_batch_kept:
  "filter kept ex_batch = [ex_raw ''1'' yes_no ex_prices, ex_raw ''6'' yes_no (Text None)]"
  by (simp add: ex_batch_def kept_def two_outcomes_def parse_or_empty_def ex_raw_def yes_no_def)

lemma ex_batch_fetch_py:
  "fetch_polymarket_markets 200 True True (Json_Body ex_batch) = Inr (filter kept ex_batch)"
  unfolding ex_batch_kept
  by (simp add: fetch_polymarket_markets_def ex_batch_def ex_raw_def yes_no_def
      loads_or_empty_def py_len_def)

lemma ex_prices_Number: "pYes_of ex_Number ex_prices = 3 / 5"
  by (simp add: pYes_of_def parse_or_empty_def ex_prices_def ex_Number_def decimal_def
      digit_value_def)

lemma ex_prices_float: "p_yes_of ex_float ex_prices = Inr (3 / 5)"
  by (simp add: p_yes_of_def loads_or_empty_def ex_prices_def ex_float_def decimal_def
      digit_value_def truthy_def subscript0_def)

lemma find_None_ids:
  "find (\<lambda>m. r_id m = k) (rev raw) = None \<longleftrightarrow> (\<forall>m \<in> set raw. r_id m \<noteq> k)"
  by (auto simp: find_None_iff)

lemma byId_lookup_None_iff:
  "byId_lookup raw k = None \<longleftrightarrow>
     (\<forall>m \<in> set raw. r_id m \<noteq> k) \<and> k \<notin> set object_prototype_keys"
  by (auto simp: byId_lookup_def find_None_ids [symmetric] split: option.splits)

lemma byId_lookup_inherited:
  "\<forall>m \<in> set raw. r_id m \<noteq> k \<Longrightarrow> k \<in> set object_prototype_keys \<Longrightarrow>
   byId_lookup raw k = Some no_fields"
  by (simp add: byId_lookup_def find_None_ids [THEN iffD2])

lemma refresh_fetch_failed_js:
  "fetchPolymarketMarkets 50 res = Inl e \<Longrightarrow> handleRefreshFromPolymarket N res st = st"
  by (simp add: handleRefreshFromPolymarket_def split: option.splits)

lemma refresh_not_found_js:
  "fetchPolymarketMarkets 50 res = Inr raw \<Longrightarrow> adminMarket st = Some am \<Longrightarrow>
   \<forall>m \<in> set raw. r_id m \<noteq> m_polyId am \<Longrightarrow>
   m_polyId am \<notin> set object_prototype_keys \<Longrightarrow>
   handleRefreshFromPolymarket N res st = st"
  by (simp add: handleRefreshFromPolymarket_def byId_lookup_None_iff [THEN iffD2])

lemma refresh_inherited_js:
  assumes "fetchPolymarketMarkets 50 res = Inr raw" "adminMarket st = Some am"
    "m_source am = ''polymarket''"
    "\<forall>m \<in> set raw. r_id m \<noteq> m_polyId am" "m_polyId am \<in> set object_prototype_keys"
  shows "handleRefreshFromPolymarket N res st =
     st\<lparr>markets :=
          map (\<lambda>m. if m_id m = m_id am
                    then m\<lparr>m_currentP := 0, m_question := None, m_description := []\<rparr>
                    else m) (markets st),
        manualProb := 0\<rparr>"
  using assms
  by (simp add: handleRefreshFromPolymarket_def byId_lookup_inherited polymarketToBube_def
      pYes_of_def parse_or_empty_def no_fields_def Let_def)

lemma refresh_positions_js:
  "positions (handleRefreshFromPolymarket N res st) = positions st"
  by (simp add: handleRefreshFromPolymarket_def Let_def split: option.splits sum.splits)

lemma refresh_fetch_failed_py:
  "fetch_polymarket_markets 200 True True res = Inl e \<Longrightarrow> ss_markets s mid = Some adm \<Longrightarrow>
   \<exists>sh. refresh_poly_button F res mid s = Inr (sh, s)"
  by (simp add: refresh_poly_button_def)

lemma refresh_not_found_py:
  "fetch_polymarket_markets 200 True True res = Inr raw \<Longrightarrow> ss_markets s mid = Some adm \<Longrightarrow>
   \<forall>m \<in> set raw. Some (r_id m) \<noteq> pm_poly_id adm \<Longrightarrow>
   \<exists>sh. refresh_poly_button F res mid s = Inr (sh, s)"
  by (cases "pm_poly_id adm")
     (auto simp: refresh_poly_button_def find_None_ids [THEN iffD2])

lemma refresh_poly_button_eq:
  assumes "ss_markets s mid = Some adm"
  shows "refresh_poly_button F res mid s =
     (if pm_source adm \<noteq> Some ''polymarket'' then Inr (Info_Shown, s)
      else
        (case fetch_polymarket_markets 200 True True res of
           Inl e \<Rightarrow> Inr (Error_Shown, s)
         | Inr poly_markets \<Rightarrow>
             (case (case pm_poly_id adm of
                      None \<Rightarrow> None
                    | Some poly_id \<Rightarrow> find (\<lambda>m. r_id m = poly_id) (rev poly_markets)) of
                None \<Rightarrow> Inr (Warning_Shown, s)
              | Some pm \<Rightarrow>
                  (case polymarket_market_to_bube F pm of
                     Inl e \<Rightarrow> Inr (Error_Shown, s)
                   | Inr bm \<Rightarrow>
                       Inr (Success_Shown,
                            s\<lparr>ss_markets := (ss_markets s)(mid \<mapsto>
                                 adm\<lparr>pm_current_p := pm_current_p bm, pm_name := pm_name bm,
                                      pm_description := pm_description bm\<rparr>),
                              ss_positions :=
                                map (update_position mid (pm_current_p bm)) (ss_positions s)\<rparr>)))))"
  using assms
  by (simp add: refresh_poly_button_def update_positions_for_market_def Let_def
      split: option.splits sum.splits)

lemma refresh_all_or_nothing_py:
  assumes "refresh_poly_button F res mid s = Inr (sh, s')"
  shows "s' = s
   \<or> (\<exists>adm (bm::py_market). ss_markets s mid = Some adm \<and> sh = Success_Shown
        \<and> s' = s\<lparr>ss_markets := (ss_markets s)(mid \<mapsto>
                     adm\<lparr>pm_current_p := pm_current_p bm, pm_name := pm_name bm,
                          pm_description := pm_description bm\<rparr>),
                  ss_positions := map (update_position mid (pm_current_p bm)) (ss_positions s)\<rparr>)"
proof -
  from assms obtain adm where adm: "ss_markets s mid = Some adm"
    by (cases "ss_markets s mid") (simp_all add: refresh_poly_button_def)
  note eq = assms [unfolded refresh_poly_button_eq [OF adm]]
  let ?found = "\<lambda>raw. case pm_poly_id adm of
                        None \<Rightarrow> None
                      | Some poly_id \<Rightarrow> find (\<lambda>m. r_id m = poly_id) (rev raw)"
  show ?thesis
  proof (cases "pm_source adm \<noteq> Some ''polymarket''")
    case True
    with eq show ?thesis by simp
  next
    case linked: False
    show ?thesis
    proof (cases "fetch_polymarket_markets 200 True True res")
      case (Inl e)
      with eq linked show ?thesis by simp
    next
      case (Inr raw)
      show ?thesis
      proof (cases "?found raw")
        case None
        with eq linked Inr show ?thesis by simp
      next
        case (Some pm)
        show ?thesis
        proof (cases "polymarket_market_to_bube F pm")
          case failed: (Inl e)
          with eq linked Inr Some show ?thesis by simp
        next
          case ok: (Inr bm)
          have "sh = Success_Shown
            \<and> s' = s\<lparr>ss_markets := (ss_markets s)(mid \<mapsto>
                     adm\<lparr>pm_current_p := pm_current_p bm, pm_name := pm_name bm,
                          pm_description := pm_description bm\<rparr>),
                  ss_positions := map (update_position mid (pm_current_p bm)) (ss_positions s)\<rparr>"
            using eq linked Inr Some ok by auto
          with adm show ?thesis by blast
        qed
      qed
    qed
  qed
qed

subsection \<open>Ingestion filter\<close>

text \<open>
  C8, as the sources have it. \<^verbatim>\<open>fetchPolymarketMarkets\<close> returns, in order, the
  candidates that are active, not closed and have an outcomes field that parses to
  a list of exactly two, up to \<^verbatim>\<open>maxMarkets\<close> of them (and at least one when there is
  one), and never fails on a batch. A candidate whose outcomes text does not
  parse is skipped. Every kept candidate is normalized with the id
  \<^verbatim>\<open>poly-\<close> followed by the provider's id. A candidate whose price text does not
  parse is not skipped: \<^verbatim>\<open>polymarketToBube\<close> and \<^verbatim>\<open>polymarket_market_to_bube\<close> catch
  the parser's error and normalize it with probability 0.
\<close>

theorem C8_ingestion_filter:
  "fetchPolymarketMarkets n (Json_Body data) = Inr (take (max n 1) (filter kept data))
   \<and> (kept m \<longleftrightarrow> r_active m \<and> \<not> r_closed m \<and> (\<exists>a b. r_outcomes m = Text (Some (JArr [a, b]))
          \<or> r_outcomes m = Other (Some (JArr [a, b]))))
   \<and> markets (load N (Json_Body data) st) = map (polymarketToBube N) (take 15 (filter kept data))
   \<and> m_id (polymarketToBube N m) = ''poly-'' @ r_id m
   \<and> (polymarket_market_to_bube F m = Inr bm \<longrightarrow> pm_id bm = ''poly-'' @ r_id m)
   \<and> (r_outcomes m = Text None \<longrightarrow> m \<notin> set (take (max n 1) (filter kept data)))
   \<and> (r_outcomePrices m = Text None \<longrightarrow>
        m_currentP (polymarketToBube N m) = 0
        \<and> (\<exists>bm'. polymarket_market_to_bube F m = Inr bm' \<and> pm_current_p bm' = 0))"
proof -
  have a: "kept m \<longleftrightarrow> r_active m \<and> \<not> r_closed m \<and> (\<exists>a b. r_outcomes m = Text (Some (JArr [a, b]))
          \<or> r_outcomes m = Other (Some (JArr [a, b])))"
    by (simp add: kept_def two_outcomes_iff)
  have b: "r_outcomePrices m = Text None \<longrightarrow>
        m_currentP (polymarketToBube N m) = 0
        \<and> (\<exists>bm'. polymarket_market_to_bube F m = Inr bm' \<and> pm_current_p bm' = 0)"
    using polymarket_market_to_bube_unparsable [of m F]
    by (auto simp: polymarketToBube_fields pYes_of_unparsable)
  show ?thesis
    using a b fetchPolymarketMarkets_eq [of n data] markets_load [of N data st]
      polymarketToBube_fields [of N m] polymarket_market_to_bube_fields [of F m bm]
      unparsable_outcomes_skipped [of m "max n 1" data]
    by blast
qed

theorem C8_ingestion_filter_witness:
  "fetchPolymarketMarkets 20 (Json_Body ex_batch) =
     Inr [ex_raw ''1'' yes_no ex_prices,
          ex_raw ''6'' yes_no (Text None)]
   \<and> map m_id (markets (load ex_Number (Json_Body ex_batch) ex_app)) = [''poly-1'', ''poly-6'']
   \<and> map m_currentP (markets (load ex_Number (Json_Body ex_batch) ex_app)) = [3 / 5, 0]
   \<and> r_outcomes (ex_raw ''5'' (Text None) Absent) = Text None
   \<and> ex_raw ''5'' (Text None) Absent \<notin> set (take (max 20 1) (filter kept ex_batch))
   \<and> r_outcomePrices (ex_raw ''6'' yes_no (Text None)) = Text None
   \<and> m_currentP (polymarketToBube ex_Number (ex_raw ''6'' yes_no (Text None))) = 0
   \<and> (\<exists>bm'. polymarket_market_to_bube ex_float (ex_raw ''6'' yes_no (Text None)) = Inr bm'
          \<and> pm_current_p bm' = 0 \<and> pm_id bm' = ''poly-6'')"
proof -
  let ?bad_outs = "ex_raw ''5'' (Text None) Absent"
  let ?bad_price = "ex_raw ''6'' yes_no (Text None)"
  have h1: "r_outcomes ?bad_outs = Text None"
    by (simp add: ex_raw_def)
  have h2: "r_outcomePrices ?bad_price = Text None"
    by (simp add: ex_raw_def)
  note inst = C8_ingestion_filter [where n = 20 and data = ex_batch and N = ex_Number
      and F = ex_float and st = ex_app]
  note c1 = inst [where m = ?bad_outs, THEN conjunct1]
  note c3 = inst [where m = ?bad_outs, THEN conjunct2, THEN conjunct2, THEN conjunct1]
  note c6 = inst [where m = ?bad_outs, THEN conjunct2, THEN conjunct2, THEN conjunct2,
      THEN conjunct2, THEN conjunct2, THEN conjunct1, THEN mp, OF h1]
  note c7 = inst [where m = ?bad_price, THEN conjunct2, THEN conjunct2, THEN conjunct2,
      THEN conjunct2, THEN conjunct2, THEN conjunct2, THEN mp, OF h2]
  from c7 obtain bm' where bm': "polymarket_market_to_bube ex_float ?bad_price = Inr bm'"
    "pm_current_p bm' = 0"
    by blast
  have h5: "polymarket_market_to_bube ex_float ?bad_price = Inr bm'"
    by (rule bm'(1))
  note c5 = inst [where m = ?bad_price and bm = bm', THEN conjunct2, THEN conjunct2,
      THEN conjunct2, THEN conjunct2, THEN conjunct1, THEN mp, OF h5]
  have id6: "pm_id bm' = ''poly-6''"
    using c5 by (simp add: ex_raw_def)
  have fetch: "fetchPolymarketMarkets 20 (Json_Body ex_batch) =
     Inr [ex_raw ''1'' yes_no ex_prices, ?bad_price]"
    using c1 by (simp add: ex_batch_kept)
  have ms: "markets (load ex_Number (Json_Body ex_batch) ex_app) =
      map (polymarketToBube ex_Number)
        [ex_raw ''1'' yes_no ex_prices, ?bad_price]"
    using c3 by (simp add: ex_batch_kept)
  have ids: "map m_id (markets (load ex_Number (Json_Body ex_batch) ex_app)) = [''poly-1'', ''poly-6'']"
    unfolding ms by (simp add: polymarketToBube_fields ex_raw_def)
  have ps: "map m_currentP (markets (load ex_Number (Json_Body ex_batch) ex_app)) = [3 / 5, 0]"
    unfolding ms
    by (simp add: polymarketToBube_fields ex_raw_def ex_prices_Number pYes_of_unparsable)
  show ?thesis using fetch ids ps h1 h2 c6 c7 bm' id6 by auto
qed

text \<open>
  The claim as the specification words it fails: an active, open, two-outcome
  candidate whose price text does not parse is kept by the filter and becomes a
  market with probability 0, in both front ends.
\<close>

theorem C8_malformed_probability_counterexample:
  "r_outcomePrices (ex_raw ''6'' yes_no (Text None)) = Text None
   \<and> fetchPolymarketMarkets 20 (Json_Body [ex_raw ''6'' yes_no (Text None)])
       = Inr [ex_raw ''6'' yes_no (Text None)]
   \<and> map m_currentP (markets (load ex_Number (Json_Body [ex_raw ''6'' yes_no (Text None)]) ex_app))
       = [0]
   \<and> map_sum id pm_current_p (polymarket_market_to_bube ex_float (ex_raw ''6'' yes_no (Text None)))
       = Inr 0"
  by (simp add: fetchPolymarketMarkets_def load_def polymarketToBube_def pYes_of_def
      polymarket_market_to_bube_def p_yes_of_def loads_or_empty_def caught_def
      parse_or_empty_def not_two_outcomes_def
      ex_raw_def yes_no_def Let_def)

subsection \<open>A refresh that finds no matching market\<close>

text \<open>
  What the handlers do: when the request fails, both leave the state as it was
  (\<open>refresh_fetch_failed_js\<close>, \<open>refresh_fetch_failed_py\<close>). When the answer holds no
  candidate with the admin market's provider id, the Streamlit handler, which
  tests \<^verbatim>\<open>poly_id in poly_by_id\<close>, leaves the session as it was
  (\<open>refresh_not_found_py\<close>); the React handler, which reads \<^verbatim>\<open>byId[polyId]\<close> from a
  plain object, does so when the id is not the name of a member of
  \<^verbatim>\<open>Object.prototype\<close> (\<open>refresh_not_found_js\<close>), and otherwise takes the inherited
  member for the market and overwrites probability, title and description
  (\<open>refresh_inherited_js\<close>).
\<close>

text \<open>
  C9. A refresh that finds no matching market is to leave markets and positions as
  they were. In the React app the market ingested from the candidate with id
  \<^verbatim>\<open>constructor\<close> is refreshed from an answer that holds the ids 1 and 6 only: its
  probability and the form's probability are overwritten with 0. The Streamlit
  handler shows its warning on the same input and changes nothing.
\<close>

theorem C9_refresh_inherited_key_overwrites_market:
  "load ex_Number
     (Json_Body [ex_raw ''constructor'' yes_no (Text (Some (JArr [JStr ''0.5'', JStr ''0.5''])))])
     ex_app = ex_constructor_app
   \<and> map_option m_polyId (adminMarket ex_constructor_app) = Some ''constructor''
   \<and> map m_currentP (markets ex_constructor_app) = [1 / 2]
   \<and> manualProb ex_constructor_app = 1 / 2
   \<and> map_sum id (map r_id) (fetchPolymarketMarkets 50 (Json_Body ex_batch)) = Inr [''1'', ''6'']
   \<and> map m_currentP
        (markets (handleRefreshFromPolymarket ex_Number (Json_Body ex_batch) ex_constructor_app))
       = [0]
   \<and> manualProb (handleRefreshFromPolymarket ex_Number (Json_Body ex_batch) ex_constructor_app)
       = 0
   \<and> map_option pm_poly_id (ss_markets ex_constructor_session ''poly-constructor'')
       = Some (Some ''constructor'')
   \<and> refresh_poly_button ex_float (Json_Body ex_batch) ''poly-constructor''
        ex_constructor_session
       = Inr (Warning_Shown, ex_constructor_session)"
proof -
  let ?am = "ex_market ''constructor'' (1 / 2)"
  have ld: "load ex_Number
     (Json_Body [ex_raw ''constructor'' yes_no (Text (Some (JArr [JStr ''0.5'', JStr ''0.5''])))])
     ex_app = ex_constructor_app"
    by (simp add: load_def fetchPolymarketMarkets_def parse_or_empty_def not_two_outcomes_def
        polymarketToBube_def pYes_of_def ex_Number_def decimal_def digit_value_def
        ex_raw_def yes_no_def ex_constructor_app_def ex_market_def ex_app_def Let_def)
  have adm: "adminMarket ex_constructor_app = Some ?am"
    by (simp add: adminMarket_def ex_constructor_app_def ex_app_def ex_market_def)
  have f: "fetchPolymarketMarkets 50 (Json_Body ex_batch) = Inr (filter kept ex_batch)"
    by (simp add: fetchPolymarketMarkets_eq ex_batch_kept)
  have ids: "map r_id (filter kept ex_batch) = [''1'', ''6'']"
    by (simp add: ex_batch_kept ex_raw_def)
  have absent: "\<forall>m \<in> set (filter kept ex_batch). r_id m \<noteq> m_polyId ?am"
    by (simp add: ex_batch_kept ex_raw_def ex_market_def)
  have inh: "m_polyId ?am \<in> set object_prototype_keys" "m_source ?am = ''polymarket''"
    by (simp_all add: ex_market_def object_prototype_keys_def)
  have js: "handleRefreshFromPolymarket ex_Number (Json_Body ex_batch) ex_constructor_app =
     ex_constructor_app\<lparr>markets :=
          map (\<lambda>m. if m_id m = m_id ?am
                    then m\<lparr>m_currentP := 0, m_question := None, m_description := []\<rparr>
                    else m) (markets ex_constructor_app),
        manualProb := 0\<rparr>"
    by (rule refresh_inherited_js [OF f adm inh(2) absent inh(1)])
  have js': "map m_currentP
        (markets (handleRefreshFromPolymarket ex_Number (Json_Body ex_batch) ex_constructor_app))
       = [0]
     \<and> manualProb (handleRefreshFromPolymarket ex_Number (Json_Body ex_batch) ex_constructor_app)
       = 0"
    unfolding js by (simp add: ex_constructor_app_def ex_app_def)
  have pm: "ss_markets ex_constructor_session ''poly-constructor''
      = Some (ex_py_market ''constructor'' (1 / 2))"
    by (simp add: ex_constructor_session_def)
  have py: "refresh_poly_button ex_float (Json_Body ex_batch) ''poly-constructor''
        ex_constructor_session = Inr (Warning_Shown, ex_constructor_session)"
    unfolding refresh_poly_button_eq [OF pm]
    by (simp add: ex_batch_fetch_py ex_batch_kept)
      (simp add: ex_py_market_def ex_raw_def)
  have before: "map m_currentP (markets ex_constructor_app) = [1 / 2]
      \<and> manualProb ex_constructor_app = 1 / 2"
    by (simp add: ex_constructor_app_def ex_app_def ex_market_def)
  show ?thesis
    using ld adm f ids js' pm py before by (simp add: ex_market_def ex_py_market_def)
qed

subsection \<open>Facts about the markets of the Streamlit session\<close>

lemma refresh_poly_button_status:
  assumes "ss_markets s mid = Some adm" "ss_markets s k = Some m'"
  shows "\<exists>sh s' m''. refresh_poly_button F res mid s = Inr (sh, s')
           \<and> ss_markets s' k = Some m''
           \<and> pm_status m'' = pm_status m' \<and> pm_outcome m'' = pm_outcome m'"
  using assms unfolding refresh_poly_button_eq [OF assms(1)]
  by (cases "k = mid") (auto split: sum.splits option.splits)

lemma open_position_button_markets:
  assumes "ss_markets s mid = Some m"
  shows "\<exists>sh s'. open_position_button nid uid mid sd notional im_pct s = Inr (sh, s')
           \<and> ss_markets s' = ss_markets s"
  using assms by (simp add: open_position_button_def Let_def)

subsection \<open>Settlement is never rejected\<close>

text \<open>
  C5, as the sources have it. Neither front end validates a settlement.
  \<^verbatim>\<open>handleSettle\<close> and \<^verbatim>\<open>settle_market\<close> set the status SETTLED and write the outcome
  on the market whatever its status was and whatever the outcome value is
  (\<^verbatim>\<open>handleSettle\<close> writes 1 for 1 and 0 for anything else, \<^verbatim>\<open>settle_market\<close> writes
  the value it is given). A market that is SETTLED keeps that status under every
  later settlement, price update, refresh and opened position, in both front ends;
  its outcome is kept by all of these but a later settlement, which overwrites it.
\<close>

theorem C5_settlement_never_rejects:
  "(adminMarket st = Some am \<and> k < length (markets st) \<and> m_id (markets st ! k) = m_id am
    \<longrightarrow> markets (handleSettle st) ! k =
          (markets st ! k)\<lparr>m_status := SETTLED,
             m_outcome := Some (if settleOutcome st = 1 then 1 else 0)\<rparr>)
   \<and> (k < length (markets st) \<and> m_status (markets st ! k) = SETTLED
    \<longrightarrow> m_status (markets (handleSettle st) ! k) = SETTLED
      \<and> m_status (markets (handleManualProbApply st) ! k) = SETTLED
      \<and> m_outcome (markets (handleManualProbApply st) ! k) = m_outcome (markets st ! k)
      \<and> m_status (markets (handleRefreshFromPolymarket N res st) ! k) = SETTLED
      \<and> m_outcome (markets (handleRefreshFromPolymarket N res st) ! k) = m_outcome (markets st ! k)
      \<and> markets (handleOpenPosition nid st) ! k = markets st ! k
      \<and> markets (recomputeEffect st) ! k = markets st ! k)
   \<and> (ss_markets s mid = Some m
    \<longrightarrow> (\<exists>s'. settle_market mid out s = Inr s'
          \<and> ss_markets s' =
              (ss_markets s)(mid \<mapsto> m\<lparr>pm_status := SETTLED, pm_outcome := Some out\<rparr>)))
   \<and> (ss_markets s mid = Some m \<and> ss_markets s k' = Some m' \<and> pm_status m' = SETTLED
    \<longrightarrow> (\<exists>s' m''. settle_market mid out s = Inr s' \<and> ss_markets s' k' = Some m''
            \<and> pm_status m'' = SETTLED)
      \<and> (\<exists>s' m''. manual_prob_button mid p s = Inr s' \<and> ss_markets s' k' = Some m''
            \<and> pm_status m'' = SETTLED \<and> pm_outcome m'' = pm_outcome m')
      \<and> (\<exists>sh s' m''. refresh_poly_button F res' mid s = Inr (sh, s')
            \<and> ss_markets s' k' = Some m''
            \<and> pm_status m'' = SETTLED \<and> pm_outcome m'' = pm_outcome m')
      \<and> (\<exists>sh s'. open_position_button nid' uid mid sd notional im_pct s = Inr (sh, s')
            \<and> ss_markets s' = ss_markets s))"
proof -
  have a: "adminMarket st = Some am \<and> k < length (markets st) \<and> m_id (markets st ! k) = m_id am
    \<longrightarrow> markets (handleSettle st) ! k =
          (markets st ! k)\<lparr>m_status := SETTLED,
             m_outcome := Some (if settleOutcome st = 1 then 1 else 0)\<rparr>"
    by (simp add: markets_handleSettle_nth)
  have b: "k < length (markets st) \<and> m_status (markets st ! k) = SETTLED
    \<longrightarrow> m_status (markets (handleSettle st) ! k) = SETTLED
      \<and> m_status (markets (handleManualProbApply st) ! k) = SETTLED
      \<and> m_outcome (markets (handleManualProbApply st) ! k) = m_outcome (markets st ! k)
      \<and> m_status (markets (handleRefreshFromPolymarket N res st) ! k) = SETTLED
      \<and> m_outcome (markets (handleRefreshFromPolymarket N res st) ! k) = m_outcome (markets st ! k)
      \<and> markets (handleOpenPosition nid st) ! k = markets st ! k
      \<and> markets (recomputeEffect st) ! k = markets st ! k"
    using status_handleSettle_stays [of k st] status_handleManualProbApply [of k st]
      status_handleRefreshFromPolymarket [of k st N res]
    by (simp add: markets_handleOpenPosition markets_recomputeEffect)
  have c: "ss_markets s mid = Some m
    \<longrightarrow> (\<exists>s'. settle_market mid out s = Inr s'
          \<and> ss_markets s' =
              (ss_markets s)(mid \<mapsto> m\<lparr>pm_status := SETTLED, pm_outcome := Some out\<rparr>))"
    by (simp add: settle_market_eq)
  have d: "ss_markets s mid = Some m \<and> ss_markets s k' = Some m' \<and> pm_status m' = SETTLED
    \<longrightarrow> (\<exists>s' m''. settle_market mid out s = Inr s' \<and> ss_markets s' k' = Some m''
            \<and> pm_status m'' = SETTLED)
      \<and> (\<exists>s' m''. manual_prob_button mid p s = Inr s' \<and> ss_markets s' k' = Some m''
            \<and> pm_status m'' = SETTLED \<and> pm_outcome m'' = pm_outcome m')
      \<and> (\<exists>sh s' m''. refresh_poly_button F res' mid s = Inr (sh, s')
            \<and> ss_markets s' k' = Some m''
            \<and> pm_status m'' = SETTLED \<and> pm_outcome m'' = pm_outcome m')
      \<and> (\<exists>sh s'. open_position_button nid' uid mid sd notional im_pct s = Inr (sh, s')
            \<and> ss_markets s' = ss_markets s)"
    using manual_prob_button_status [of s mid m k' m' p]
      refresh_poly_button_status [of s mid m k' m' F res']
      open_position_button_markets [of s mid m nid' uid sd notional im_pct]
    by (cases "k' = mid") (auto simp: settle_market_eq)
  show ?thesis using a b c d by blast
qed

theorem C5_settlement_never_rejects_witness:
  "m_status (markets ex_settled_app ! 0) = SETTLED
   \<and> m_outcome (markets ex_settled_app ! 0) = Some 1
   \<and> m_status (markets (handleSettle ex_settled_app) ! 0) = SETTLED
   \<and> m_outcome (markets (handleSettle ex_settled_app) ! 0) = Some 0
   \<and> m_status (markets (handleManualProbApply ex_settled_app) ! 0) = SETTLED
   \<and> map_option pm_status (ss_markets ex_settled_session ''poly-1'') = Some SETTLED
   \<and> (\<exists>s'. settle_market ''poly-1'' (1 / 2) ex_settled_session = Inr s'
         \<and> map_option pm_outcome (ss_markets s' ''poly-1'') = Some (Some (1 / 2))
         \<and> map_option pm_status (ss_markets s' ''poly-1'') = Some SETTLED)
   \<and> (\<exists>s' m''. manual_prob_button ''poly-1'' (4 / 10) ex_settled_session = Inr s'
         \<and> ss_markets s' ''poly-1'' = Some m'' \<and> pm_status m'' = SETTLED)
   \<and> m_status (markets (handleRefreshFromPolymarket ex_Number (Json_Body ex_batch)
                           ex_settled_app) ! 0) = SETTLED
   \<and> m_status (markets (handleOpenPosition ''pos-1'' ex_settled_app) ! 0) = SETTLED
   \<and> (\<exists>sh s' m''. refresh_poly_button ex_float (Json_Body ex_batch) ''poly-1''
                       ex_settled_session = Inr (sh, s')
         \<and> ss_markets s' ''poly-1'' = Some m''
         \<and> pm_status m'' = SETTLED \<and> pm_outcome m'' = Some 1)
   \<and> (\<exists>sh s'. open_position_button ''pos-1'' ''u-1'' ''poly-1'' LONG 1000000 (1 / 10)
                    ex_settled_session = Inr (sh, s')
         \<and> ss_markets s' = ss_markets ex_settled_session)"
proof -
  let ?am = "(ex_market ''1'' (1 / 2))\<lparr>m_status := SETTLED, m_outcome := Some 1\<rparr>"
  let ?pm = "(ex_py_market ''1'' (1 / 2))\<lparr>pm_status := SETTLED, pm_outcome := Some 1\<rparr>"
  have h1: "adminMarket ex_settled_app = Some ?am \<and> 0 < length (markets ex_settled_app)
      \<and> m_id (markets ex_settled_app ! 0) = m_id ?am"
    using ex_settled_adminMarket by (simp add: ex_settled_app_def)
  have h2: "0 < length (markets ex_settled_app) \<and> m_status (markets ex_settled_app ! 0) = SETTLED"
    by (simp add: ex_settled_app_def)
  have h3: "ss_markets ex_settled_session ''poly-1'' = Some ?pm"
    by (simp add: ex_settled_session_def)
  have h4: "ss_markets ex_settled_session ''poly-1'' = Some ?pm
      \<and> ss_markets ex_settled_session ''poly-1'' = Some ?pm \<and> pm_status ?pm = SETTLED"
    by (simp add: ex_settled_session_def)
  note c1 = C5_settlement_never_rejects [where st = ex_settled_app and am = ?am and k = 0,
      THEN conjunct1, THEN mp, OF h1]
  note c2 = C5_settlement_never_rejects [where st = ex_settled_app and k = 0
      and N = ex_Number and res = "Json_Body ex_batch" and nid = "''pos-1''",
      THEN conjunct2, THEN conjunct1, THEN mp, OF h2]
  note c3 = C5_settlement_never_rejects [where s = ex_settled_session and mid = "''poly-1''"
      and m = ?pm and out = "1 / 2", THEN conjunct2, THEN conjunct2, THEN conjunct1, THEN mp,
      OF h3]
  note c4 = C5_settlement_never_rejects [where s = ex_settled_session and mid = "''poly-1''"
      and m = ?pm and k' = "''poly-1''" and m' = ?pm and p = "4 / 10"
      and F = ex_float and res' = "Json_Body ex_batch" and nid' = "''pos-1''"
      and uid = "''u-1''" and sd = LONG and notional = 1000000 and im_pct = "1 / 10",
      THEN conjunct2, THEN conjunct2, THEN conjunct2, THEN mp, OF h4]
  have a: "m_status (markets ex_settled_app ! 0) = SETTLED
      \<and> m_outcome (markets ex_settled_app ! 0) = Some 1"
    by (simp add: ex_settled_app_def)
  have b: "m_status (markets (handleSettle ex_settled_app) ! 0) = SETTLED
      \<and> m_outcome (markets (handleSettle ex_settled_app) ! 0) = Some 0"
    using c1 by (simp add: ex_settled_app_def)
  have c: "m_status (markets (handleManualProbApply ex_settled_app) ! 0) = SETTLED"
    using c2 by simp
  have d: "\<exists>s'. settle_market ''poly-1'' (1 / 2) ex_settled_session = Inr s'
         \<and> map_option pm_outcome (ss_markets s' ''poly-1'') = Some (Some (1 / 2))
         \<and> map_option pm_status (ss_markets s' ''poly-1'') = Some SETTLED"
    using c3 by auto
  have e: "\<exists>s' m''. manual_prob_button ''poly-1'' (4 / 10) ex_settled_session = Inr s'
         \<and> ss_markets s' ''poly-1'' = Some m'' \<and> pm_status m'' = SETTLED"
    using c4 by blast
  have f: "m_status (markets (handleRefreshFromPolymarket ex_Number (Json_Body ex_batch)
                           ex_settled_app) ! 0) = SETTLED
      \<and> m_status (markets (handleOpenPosition ''pos-1'' ex_settled_app) ! 0) = SETTLED"
    using c2 a by simp
  have g: "\<exists>sh s' m''. refresh_poly_button ex_float (Json_Body ex_batch) ''poly-1''
                       ex_settled_session = Inr (sh, s')
         \<and> ss_markets s' ''poly-1'' = Some m''
         \<and> pm_status m'' = SETTLED \<and> pm_outcome m'' = Some 1"
    using c4 [THEN conjunct2, THEN conjunct2, THEN conjunct1] by simp
  have h: "\<exists>sh s'. open_position_button ''pos-1'' ''u-1'' ''poly-1'' LONG 1000000 (1 / 10)
                    ex_settled_session = Inr (sh, s')
         \<and> ss_markets s' = ss_markets ex_settled_session"
    using c4 [THEN conjunct2, THEN conjunct2, THEN conjunct2] by simp
  show ?thesis using a b c d e f g h h3 by simp
qed

text \<open>
  The claim as the specification words it fails: a SETTLED market with outcome 1 is
  settled again, the call is not rejected and the outcome becomes 0; the Streamlit
  function also accepts the outcome 0.5.
\<close>

theorem C5_resettlement_counterexample:
  "m_status (markets (handleSettle ex_app) ! 0) = SETTLED
   \<and> m_outcome (markets (handleSettle ex_app) ! 0) = Some 1
   \<and> m_outcome (markets (handleSettle ((handleSettle ex_app)\<lparr>settleOutcome := 0\<rparr>)) ! 0) = Some 0
   \<and> (\<exists>s' s''. settle_market ''poly-1'' 1 ex_session = Inr s'
        \<and> map_option pm_status (ss_markets s' ''poly-1'') = Some SETTLED
        \<and> map_option pm_outcome (ss_markets s' ''poly-1'') = Some (Some 1)
        \<and> settle_market ''poly-1'' (1 / 2) s' = Inr s''
        \<and> map_option pm_outcome (ss_markets s'' ''poly-1'') = Some (Some (1 / 2)))"
proof -
  have adm: "adminMarket ex_app = Some (ex_market ''1'' (1 / 2))"
    by (simp add: adminMarket_def ex_app_def ex_market_def)
  have adm2: "adminMarket ((handleSettle ex_app)\<lparr>settleOutcome := 0\<rparr>) =
      Some ((ex_market ''1'' (1 / 2))\<lparr>m_status := SETTLED, m_outcome := Some 1\<rparr>)"
    using adminMarket_handleSettle [OF adm, of 0] by (simp add: ex_app_def)
  have len: "0 < length (markets ex_app)" "m_id (markets ex_app ! 0) = ''poly-1''"
    "settleOutcome ex_app = 1"
    by (simp_all add: ex_app_def ex_market_def)
  have js1: "m_status (markets (handleSettle ex_app) ! 0) = SETTLED
      \<and> m_outcome (markets (handleSettle ex_app) ! 0) = Some 1"
    using len by (simp add: markets_handleSettle_nth [OF adm] ex_market_def)
  have js2: "m_outcome (markets (handleSettle ((handleSettle ex_app)\<lparr>settleOutcome := 0\<rparr>)) ! 0)
      = Some 0"
    using len
    by (simp add: markets_handleSettle_nth [OF adm2] markets_handleSettle_nth [OF adm]
        length_markets_handleSettle ex_market_def)
  have py: "\<exists>s' s''. settle_market ''poly-1'' 1 ex_session = Inr s'
        \<and> map_option pm_status (ss_markets s' ''poly-1'') = Some SETTLED
        \<and> map_option pm_outcome (ss_markets s' ''poly-1'') = Some (Some 1)
        \<and> settle_market ''poly-1'' (1 / 2) s' = Inr s''
        \<and> map_option pm_outcome (ss_markets s'' ''poly-1'') = Some (Some (1 / 2))"
    by (simp add: settle_market_def ex_session_def)
  show ?thesis using js1 js2 py by simp
qed

end
